theory Spec2Isabelle
  imports Complex_Main
begin

section \<open>JavaScript strings\<close>

text \<open>
  A JavaScript string is a sequence of UTF-16 code units. The model uses \<^typ>\<open>string\<close>:
  one \<^typ>\<open>char\<close> per code unit, which covers the code units U+0000 to U+00FF.
  \<open>length\<close> is the \<open>.length\<close> of the source.
\<close>

definition startsWith :: "string \<Rightarrow> string \<Rightarrow> bool" where
  "startsWith s p = (take (length p) s = p)"

definition endsWith :: "string \<Rightarrow> string \<Rightarrow> bool" where
  "endsWith s p = (length p \<le> length s \<and> drop (length s - length p) s = p)"

fun includes_str :: "string \<Rightarrow> string \<Rightarrow> bool" where
  "includes_str [] sub = (sub = [])"
| "includes_str (c # cs) sub = (startsWith (c # cs) sub \<or> includes_str cs sub)"

text \<open>\<open>s.lastIndexOf(sub)\<close>: the largest index at which \<open>sub\<close> occurs, or \<open>-1\<close>.\<close>

definition lastIndexOf :: "string \<Rightarrow> string \<Rightarrow> int" where
  "lastIndexOf s sub =
     (case filter (\<lambda>i. take (length sub) (drop i s) = sub) (rev [0..<Suc (length s)]) of
        [] \<Rightarrow> - 1
      | i # _ \<Rightarrow> int i)"

text \<open>\<open>s.substr(0, n)\<close> for a count \<open>n\<close>; a negative count gives the empty string.\<close>

definition substr0 :: "string \<Rightarrow> int \<Rightarrow> string" where
  "substr0 s n = take (nat n) s"

text \<open>
  The white space of \<open>\s\<close> and of \<open>trim()\<close> among the code units below U+0100: tab, line
  feed, vertical tab, form feed, carriage return, space and no-break space.
\<close>

definition is_space :: "char \<Rightarrow> bool" where
  "is_space c = (of_char c \<in> {9, 10, 11, 12, 13, 32, 160 :: nat})"

definition trim :: "string \<Rightarrow> string" where
  "trim s = rev (dropWhile is_space (rev (dropWhile is_space s)))"

text \<open>\<open>s.replace(/\s+/g, ' ')\<close>: every maximal run of white space becomes one space.\<close>

function collapse_ws :: "string \<Rightarrow> string" where
  "collapse_ws [] = []"
| "collapse_ws (c # cs) =
     (if is_space c then CHR '' '' # collapse_ws (dropWhile is_space cs)
      else c # collapse_ws cs)"
  by pat_completeness auto
termination
  by (relation "measure length") (auto simp: le_imp_less_Suc length_dropWhile_le)

text \<open>
  \<open>s.split(/\s+/)\<close>: the pieces between the maximal runs of white space; a run at either
  end leaves an empty piece there, and the empty string gives one empty piece.
\<close>

function split_ws_acc :: "string \<Rightarrow> string \<Rightarrow> string list" where
  "split_ws_acc acc [] = [rev acc]"
| "split_ws_acc acc (c # cs) =
     (if is_space c then rev acc # split_ws_acc [] (dropWhile is_space cs)
      else split_ws_acc (c # acc) cs)"
  by pat_completeness auto
termination
  by (relation "measure (\<lambda>(acc, s). length s)") (auto simp: le_imp_less_Suc length_dropWhile_le)

definition split_ws :: "string \<Rightarrow> string list" where
  "split_ws s = split_ws_acc [] s"

text \<open>\<open>xs.join(sep)\<close>.\<close>

fun join :: "string \<Rightarrow> string list \<Rightarrow> string" where
  "join sep [] = []"
| "join sep [x] = x"
| "join sep (x # y # ys) = x @ sep @ join sep (y # ys)"

text \<open>
  A regular expression that is a sequence of single-character atoms: \<open>Some c\<close> is the
  literal \<open>c\<close>, \<open>None\<close> is the wildcard \<open>.\<close>, which matches every code unit but the line
  terminators.
\<close>

type_synonym pattern = "char option list"

definition is_line_terminator :: "char \<Rightarrow> bool" where
  "is_line_terminator c = (of_char c \<in> {10, 13 :: nat})"

fun atom_matches :: "char option \<Rightarrow> char \<Rightarrow> bool" where
  "atom_matches None c = (\<not> is_line_terminator c)"
| "atom_matches (Some a) c = (a = c)"

fun matches_at :: "pattern \<Rightarrow> string \<Rightarrow> bool" where
  "matches_at [] s = True"
| "matches_at (a # as) [] = False"
| "matches_at (a # as) (c # cs) = (atom_matches a c \<and> matches_at as cs)"

text \<open>
  \<open>s.replace(new RegExp(p, 'g'), rep)\<close> for such a pattern and a replacement without
  \<open>$\<close>: the matches are replaced from left to right, and the search goes on behind each
  match. The empty pattern is not used by the code; the model leaves the string as it is.
\<close>

function replace_pattern :: "pattern \<Rightarrow> string \<Rightarrow> string \<Rightarrow> string" where
  "replace_pattern p rep [] = []"
| "replace_pattern p rep (c # cs) =
     (if p \<noteq> [] \<and> matches_at p (c # cs)
      then rep @ replace_pattern p rep (drop (length p) (c # cs))
      else c # replace_pattern p rep cs)"
  by pat_completeness auto
termination
  by (relation "measure (\<lambda>(p, rep, s). length s)") (auto simp: neq_Nil_conv)

definition literal :: "string \<Rightarrow> pattern" where
  "literal s = map Some s"

section \<open>The preview cache of the preview generator\<close>

text \<open>
  \<open>PreviewGenerator\<close> keeps a JavaScript \<open>Map\<close> from URL to \<open>{preview, timestamp}\<close>. A
  \<open>Map\<close> iterates in insertion order, and assigning to a key that is present keeps the
  key's place: the model is an association list with these two operations. Times are
  the milliseconds of \<open>Date.now()\<close>, passed in by the caller.
\<close>

record 'r cache_entry =
  preview :: 'r
  timestamp :: int

type_synonym 'r cache = "(string \<times> 'r cache_entry) list"

definition cacheTimeout :: int where
  "cacheTimeout = 5 * 60 * 1000"

definition cache_get :: "'r cache \<Rightarrow> string \<Rightarrow> 'r cache_entry option" where
  "cache_get c url = map_of c url"

definition cache_delete :: "'r cache \<Rightarrow> string \<Rightarrow> 'r cache" where
  "cache_delete c url = filter (\<lambda>kv. fst kv \<noteq> url) c"

fun cache_set :: "'r cache \<Rightarrow> string \<Rightarrow> 'r cache_entry \<Rightarrow> 'r cache" where
  "cache_set [] url e = [(url, e)]"
| "cache_set ((k, v) # c) url e =
     (if k = url then (k, e) # c else (k, v) # cache_set c url e)"

text \<open>
  \<open>getCached(url)\<close> at the time \<open>now\<close>: the returned preview (\<open>None\<close> is the \<open>null\<close> of
  a miss) and the cache afterwards; an expired entry is deleted.
\<close>

definition getCached :: "'r cache \<Rightarrow> int \<Rightarrow> string \<Rightarrow> 'r option \<times> 'r cache" where
  "getCached c now url =
     (case cache_get c url of
        None \<Rightarrow> (None, c)
      | Some cached \<Rightarrow>
          if now - timestamp cached > cacheTimeout then (None, cache_delete c url)
          else (Some (preview cached), c))"

text \<open>
  \<open>setCached(url, preview)\<close> at the time \<open>now\<close>: with more than 50 entries the first key
  of the map goes, then the entry is stored.
\<close>

definition setCached :: "'r cache \<Rightarrow> int \<Rightarrow> string \<Rightarrow> 'r \<Rightarrow> 'r cache" where
  "setCached c now url p =
     (let c1 = (if length c > 50
                then (case c of [] \<Rightarrow> c | (firstKey, _) # _ \<Rightarrow> cache_delete c firstKey)
                else c)
      in cache_set c1 url \<lparr>preview = p, timestamp = now\<rparr>)"

section \<open>The text summarizer\<close>

text \<open>
  \<open>truncateToFit(text, maxChars)\<close>. The comparison \<open>pos > maxChars * 0.5\<close> of an index
  with half the limit is written \<open>2 * pos > maxChars\<close>.
\<close>

definition sentenceEndings :: "string list" where
  "sentenceEndings = [''. '', ''! '', ''? '']"

fun bestBreak_loop :: "string \<Rightarrow> int \<Rightarrow> string list \<Rightarrow> int \<Rightarrow> int" where
  "bestBreak_loop truncated maxChars [] bestBreak = bestBreak"
| "bestBreak_loop truncated maxChars (ending # rest) bestBreak =
     (let pos = lastIndexOf truncated ending
      in bestBreak_loop truncated maxChars rest
           (if 2 * pos > maxChars \<and> pos > bestBreak then pos else bestBreak))"

definition bestBreak_of :: "string \<Rightarrow> int \<Rightarrow> int" where
  "bestBreak_of text maxChars =
     bestBreak_loop (substr0 text maxChars) maxChars sentenceEndings (- 1)"

definition truncateToFit :: "string \<Rightarrow> int \<Rightarrow> string" where
  "truncateToFit text maxChars =
     (if text = [] then []
      else if int (length text) \<le> maxChars then text
      else
        let truncated = substr0 text maxChars;
            bestBreak = bestBreak_of text maxChars
        in if bestBreak > 0 then substr0 truncated (bestBreak + 1)
           else
             let lastSpace = lastIndexOf truncated '' ''
             in if 2 * lastSpace > maxChars then substr0 truncated lastSpace @ ''...''
                else truncated @ ''...'')"

text \<open>
  \<open>splitIntoSentences(text)\<close>. Each abbreviation becomes a regular expression by
  \<open>abbr.replace('.', '\\.')\<close>, which escapes the first dot only: a second dot, as in
  \<open>e.g.\<close> and \<open>i.e.\<close>, stays a wildcard.
\<close>

definition abbreviations :: "string list" where
  "abbreviations = [''Dr.'', ''Mr.'', ''Mrs.'', ''Ms.'', ''Prof.'', ''Sr.'', ''Jr.'', ''etc.'',
     ''vs.'', ''e.g.'', ''i.e.'', ''Inc.'', ''Co.'', ''Corp.'', ''Ltd.'']"

fun abbr_pattern :: "bool \<Rightarrow> string \<Rightarrow> pattern" where
  "abbr_pattern escaped [] = []"
| "abbr_pattern escaped (c # cs) =
     (if c = CHR ''.'' then
        (if escaped then None # abbr_pattern True cs else Some c # abbr_pattern True cs)
      else Some c # abbr_pattern escaped cs)"

fun digits_of :: "nat \<Rightarrow> string" where
  "digits_of n =
     (if n < 10 then [char_of (48 + n)] else digits_of (n div 10) @ [char_of (48 + n mod 10)])"

definition placeholder :: "nat \<Rightarrow> string" where
  "placeholder index = ''<<ABBR>>'' @ digits_of index"

fun protect_abbreviations :: "(string \<times> nat) list \<Rightarrow> string \<Rightarrow> string" where
  "protect_abbreviations [] text = text"
| "protect_abbreviations ((abbr, index) # rest) text =
     protect_abbreviations rest
       (replace_pattern (abbr_pattern False abbr) (placeholder index) text)"

fun restore_abbreviations :: "(string \<times> nat) list \<Rightarrow> string \<Rightarrow> string" where
  "restore_abbreviations [] sentence = sentence"
| "restore_abbreviations ((abbr, index) # rest) sentence =
     restore_abbreviations rest
       (replace_pattern (literal (placeholder index)) abbr sentence)"

text \<open>
  \<open>text.split(/([.!?]+)\s+(?=[A-Z])/g)\<close>: the pieces alternate between the text before a
  boundary and the punctuation the group captured; the white space of the boundary is
  dropped. A boundary is a run of \<open>.\<close>, \<open>!\<close>, \<open>?\<close> followed by white space and then a
  capital letter \<open>A\<close> to \<open>Z\<close>.
\<close>

definition is_punct :: "char \<Rightarrow> bool" where
  "is_punct c = (c = CHR ''.'' \<or> c = CHR ''!'' \<or> c = CHR ''?'')"

definition is_upper_AZ :: "char \<Rightarrow> bool" where
  "is_upper_AZ c = (65 \<le> (of_char c :: nat) \<and> (of_char c :: nat) \<le> 90)"

definition boundary_at :: "string \<Rightarrow> (string \<times> string) option" where
  "boundary_at s =
     (let punct = takeWhile is_punct s;
          r1 = dropWhile is_punct s;
          r2 = dropWhile is_space r1
      in if punct \<noteq> [] \<and> r1 \<noteq> [] \<and> is_space (hd r1) \<and> r2 \<noteq> [] \<and> is_upper_AZ (hd r2)
         then Some (punct, r2) else None)"

function split_sentence_regex :: "string \<Rightarrow> string \<Rightarrow> string list" where
  "split_sentence_regex acc [] = [rev acc]"
| "split_sentence_regex acc (c # cs) =
     (case boundary_at (c # cs) of
        Some (punct, rest) \<Rightarrow> rev acc # punct # split_sentence_regex [] rest
      | None \<Rightarrow> split_sentence_regex (c # acc) cs)"
  by pat_completeness auto
termination
proof (relation "measure (\<lambda>(acc, s). length s)")
  fix acc :: string and c cs x2 punct rest
  assume b: "boundary_at (c # cs) = Some x2" and x2: "(punct, rest) = x2"
  let ?s = "c # cs"
  from b x2 have p: "takeWhile is_punct ?s \<noteq> []"
    and r: "rest = dropWhile is_space (dropWhile is_punct ?s)"
    by (auto simp: boundary_at_def Let_def split: if_splits)
  have "length (takeWhile is_punct ?s) + length (dropWhile is_punct ?s) = length ?s"
    by (metis length_append takeWhile_dropWhile_id)
  with p have "length (dropWhile is_punct ?s) < length ?s"
    by (cases "takeWhile is_punct ?s") auto
  moreover have "length rest \<le> length (dropWhile is_punct ?s)"
    unfolding r by (rule length_dropWhile_le)
  ultimately show "(([], rest), (acc, c # cs)) \<in> measure (\<lambda>(acc, s). length s)"
    by simp
qed auto

text \<open>The loop \<open>for (i = 0; i < parts.length; i += 2)\<close> that glues punctuation back on.\<close>

fun reconstruct :: "string list \<Rightarrow> string list" where
  "reconstruct [] = []"
| "reconstruct [p] = (if p \<noteq> [] \<and> length (trim p) > 0 then [trim p] else [])"
| "reconstruct (p # q # rest) =
     (if p \<noteq> [] \<and> length (trim p) > 0 then [trim (p @ q)] else []) @ reconstruct rest"

definition splitIntoSentences :: "string \<Rightarrow> string list" where
  "splitIntoSentences text0 =
     (if text0 = [] then []
      else
        let indexed = zip abbreviations [0..<length abbreviations];
            text1 = trim (collapse_ws text0);
            text2 = protect_abbreviations indexed text1;
            parts = split_sentence_regex [] text2;
            sentences = reconstruct parts;
            restoredSentences = map (restore_abbreviations indexed) sentences
        in filter (\<lambda>s. length s > 10 \<and> length (split_ws s) > 3) restoredSentences)"

text \<open>
  \<open>summarize(text, maxSentences, maxChars)\<close>. \<open>scoreSentence\<close> computes a floating-point
  number; the model takes the scoring as a parameter \<open>score sentence index total\<close> into any
  linear order, so that what is proved holds for every scoring. \<open>Array.prototype.sort\<close>
  is stable: \<open>sort_by_score\<close>, an insertion sort from the right, keeps the earlier of two
  sentences of equal score first.
\<close>

record 'a scored =
  sentence :: string
  score_of :: 'a
  index_of :: nat

fun insert_desc :: "('a::linorder) scored \<Rightarrow> 'a scored list \<Rightarrow> 'a scored list" where
  "insert_desc x [] = [x]"
| "insert_desc x (y # ys) =
     (if score_of x \<ge> score_of y then x # y # ys else y # insert_desc x ys)"

fun sort_by_score :: "('a::linorder) scored list \<Rightarrow> 'a scored list" where
  "sort_by_score [] = []"
| "sort_by_score (x # xs) = insert_desc x (sort_by_score xs)"

definition scoredSentences ::
  "(string \<Rightarrow> nat \<Rightarrow> nat \<Rightarrow> 'a) \<Rightarrow> string list \<Rightarrow> 'a scored list" where
  "scoredSentences score sentences =
     map (\<lambda>(s, i). \<lparr>sentence = s, score_of = score s i (length sentences), index_of = i\<rparr>)
       (zip sentences [0..<length sentences])"

definition topSentences ::
  "(string \<Rightarrow> nat \<Rightarrow> nat \<Rightarrow> 'a::linorder) \<Rightarrow> string list \<Rightarrow> nat \<Rightarrow> 'a scored list" where
  "topSentences score sentences maxSentences =
     sort_key index_of
       (take (min maxSentences (length sentences))
          (sort_by_score (scoredSentences score sentences)))"

text \<open>The text that the last steps of \<open>summarize\<close> compare with \<open>maxChars\<close>.\<close>

definition joined_summary ::
  "(string \<Rightarrow> nat \<Rightarrow> nat \<Rightarrow> 'a::linorder) \<Rightarrow> string list \<Rightarrow> nat \<Rightarrow> string" where
  "joined_summary score sentences maxSentences =
     join '' '' (map sentence (topSentences score sentences maxSentences))"

definition summarize ::
  "(string \<Rightarrow> nat \<Rightarrow> nat \<Rightarrow> 'a::linorder) \<Rightarrow> string \<Rightarrow> nat \<Rightarrow> int \<Rightarrow> string" where
  "summarize score text maxSentences maxChars =
     (if text = [] then []
      else
        let sentences = splitIntoSentences text
        in if length sentences = 0 then truncateToFit text maxChars
           else if length sentences \<le> 2 then hd sentences
           else
             let summary = joined_summary score sentences maxSentences
             in if int (length summary) > maxChars then truncateToFit summary maxChars
                else summary)"


section \<open>JavaScript values, exceptions and \<open>JSON.parse\<close>\<close>

text \<open>
  A thrown exception is a value with a message; a computation that can throw returns
  \<open>exn + 'a\<close>, with \<open>Inl\<close> for the exception, and \<open>try_catch\<close> is the \<open>try\<close> statement.
\<close>

datatype exn = Error string | TypeError string | SyntaxError string

fun message :: "exn \<Rightarrow> string" where
  "message (Error m) = m"
| "message (TypeError m) = m"
| "message (SyntaxError m) = m"

definition try_catch :: "exn + 'a \<Rightarrow> (exn \<Rightarrow> exn + 'a) \<Rightarrow> exn + 'a" where
  "try_catch body handler = (case body of Inl e \<Rightarrow> handler e | Inr v \<Rightarrow> Inr v)"

definition bind_exn :: "exn + 'a \<Rightarrow> ('a \<Rightarrow> exn + 'b) \<Rightarrow> exn + 'b" where
  "bind_exn m f = (case m of Inl e \<Rightarrow> Inl e | Inr v \<Rightarrow> f v)"

text \<open>
  The values of JSON, with \<open>undefined\<close> added. Numbers are kept exactly, as rationals.
  An object is the list of its properties in insertion order.
\<close>

datatype jsval =
  Undefined | Null | Bool bool | Num rat | Str string | Arr "jsval list"
  | Obj "(string \<times> jsval) list"

fun truthy :: "jsval \<Rightarrow> bool" where
  "truthy Undefined = False"
| "truthy Null = False"
| "truthy (Bool b) = b"
| "truthy (Num r) = (r \<noteq> 0)"
| "truthy (Str s) = (s \<noteq> [])"
| "truthy (Arr xs) = True"
| "truthy (Obj ms) = True"

text \<open>
  \<open>v[k]\<close> for a key \<open>k\<close> that is no array index and no built-in property, such as
  \<open>'@type'\<close>: reading it from \<open>null\<close> or \<open>undefined\<close> throws a \<open>TypeError\<close>, an object
  gives the property or \<open>undefined\<close>, every other value gives \<open>undefined\<close>.
\<close>

fun get_prop :: "jsval \<Rightarrow> string \<Rightarrow> exn + jsval" where
  "get_prop Undefined k = Inl (TypeError ''Cannot read properties of undefined'')"
| "get_prop Null k = Inl (TypeError ''Cannot read properties of null'')"
| "get_prop (Obj ms) k = Inr (case map_of ms k of None \<Rightarrow> Undefined | Some v \<Rightarrow> v)"
| "get_prop (Bool b) k = Inr Undefined"
| "get_prop (Num r) k = Inr Undefined"
| "get_prop (Str s) k = Inr Undefined"
| "get_prop (Arr xs) k = Inr Undefined"

text \<open>\<open>v?.k\<close>.\<close>

definition opt_chain :: "jsval \<Rightarrow> string \<Rightarrow> exn + jsval" where
  "opt_chain v k = (if v = Undefined \<or> v = Null then Inr Undefined else get_prop v k)"

text \<open>Assigning a property: a key that is present keeps its place.\<close>

fun obj_set :: "(string \<times> jsval) list \<Rightarrow> string \<Rightarrow> jsval \<Rightarrow> (string \<times> jsval) list" where
  "obj_set [] k v = [(k, v)]"
| "obj_set ((k', v') # ms) k v =
     (if k' = k then (k', v) # ms else (k', v') # obj_set ms k v)"

definition obj_of_members :: "(string \<times> jsval) list \<Rightarrow> jsval" where
  "obj_of_members ms = Obj (foldl (\<lambda>acc (k, v). obj_set acc k v) [] ms)"

subsection \<open>The lexer\<close>

datatype token =
  TLBrace | TRBrace | TLBracket | TRBracket | TColon | TComma
  | TStr string | TNum rat | TTrue | TFalse | TNull

definition is_digit :: "char \<Rightarrow> bool" where
  "is_digit c = (48 \<le> (of_char c :: nat) \<and> (of_char c :: nat) \<le> 57)"

definition digit_val :: "char \<Rightarrow> nat" where
  "digit_val c = of_char c - 48"

definition digits_val :: "string \<Rightarrow> nat" where
  "digits_val ds = foldl (\<lambda>acc c. 10 * acc + digit_val c) 0 ds"

definition hex_val :: "char \<Rightarrow> nat option" where
  "hex_val c =
     (let n = (of_char c :: nat)
      in if 48 \<le> n \<and> n \<le> 57 then Some (n - 48)
         else if 65 \<le> n \<and> n \<le> 70 then Some (n - 55)
         else if 97 \<le> n \<and> n \<le> 102 then Some (n - 87)
         else None)"

text \<open>The white space of the JSON grammar: tab, line feed, carriage return, space.\<close>

definition is_json_ws :: "char \<Rightarrow> bool" where
  "is_json_ws c = (of_char c \<in> {9, 10, 13, 32 :: nat})"

text \<open>
  A JSON number: \<open>-? (0 | [1-9][0-9]*) (. [0-9]+)? ([eE] [+-]? [0-9]+)?\<close>, and its value.
\<close>

definition number_of :: "string \<Rightarrow> rat option" where
  "number_of s =
     (let neg = (s \<noteq> [] \<and> hd s = CHR ''-'');
          s1 = (if neg then tl s else s);
          ip = takeWhile is_digit s1;
          s2 = dropWhile is_digit s1;
          has_frac = (s2 \<noteq> [] \<and> hd s2 = CHR ''.'');
          fp = (if has_frac then takeWhile is_digit (tl s2) else []);
          s3 = (if has_frac then dropWhile is_digit (tl s2) else s2);
          has_exp = (s3 \<noteq> [] \<and> (hd s3 = CHR ''e'' \<or> hd s3 = CHR ''E''));
          s4 = (if has_exp then tl s3 else s3);
          eneg = (has_exp \<and> s4 \<noteq> [] \<and> hd s4 = CHR ''-'');
          s5 = (if has_exp \<and> s4 \<noteq> [] \<and> (hd s4 = CHR ''-'' \<or> hd s4 = CHR ''+'') then tl s4
                else s4);
          ep = (if has_exp then takeWhile is_digit s5 else []);
          s6 = (if has_exp then dropWhile is_digit s5 else s5);
          mantissa = (of_nat (digits_val ip) :: rat)
                     + of_nat (digits_val fp) / 10 ^ length fp;
          scaled = (if eneg then mantissa / 10 ^ digits_val ep
                    else mantissa * 10 ^ digits_val ep)
      in if ip \<noteq> [] \<and> (length ip = 1 \<or> hd ip \<noteq> CHR ''0'')
            \<and> (has_frac \<longrightarrow> fp \<noteq> []) \<and> (has_exp \<longrightarrow> ep \<noteq> []) \<and> s6 = []
         then Some (if neg then - scaled else scaled)
         else None)"

definition literal_of :: "string \<Rightarrow> token option" where
  "literal_of s =
     (if s = ''true'' then Some TTrue
      else if s = ''false'' then Some TFalse
      else if s = ''null'' then Some TNull
      else None)"

definition punct_token :: "char \<Rightarrow> token option" where
  "punct_token c =
     (if c = CHR ''{'' then Some TLBrace
      else if c = CHR ''}'' then Some TRBrace
      else if c = CHR ''['' then Some TLBracket
      else if c = CHR '']'' then Some TRBracket
      else if c = CHR '':'' then Some TColon
      else if c = CHR '','' then Some TComma
      else None)"

definition is_number_char :: "char \<Rightarrow> bool" where
  "is_number_char c =
     (is_digit c \<or> c = CHR ''-'' \<or> c = CHR ''+'' \<or> c = CHR ''.'' \<or> c = CHR ''e''
      \<or> c = CHR ''E'')"

definition is_lower_az :: "char \<Rightarrow> bool" where
  "is_lower_az c = (97 \<le> (of_char c :: nat) \<and> (of_char c :: nat) \<le> 122)"

text \<open>
  The lexer reads one code unit at a time. Inside a string, a code unit below U+0020 is
  an error, and so is a backslash that starts none of the escapes of JSON. An escape
  \<open>\uXXXX\<close> gives the code unit of that number (below U+0100 in this model).
\<close>

datatype lstate =
  LStart | LStr string | LEsc string | LUni string "nat list" | LNum string | LLit string

definition escape_char :: "char \<Rightarrow> char option" where
  "escape_char c =
     (if c = CHR 0x22 \<or> c = CHR 0x5C \<or> c = CHR ''/'' then Some c
      else if c = CHR ''b'' then Some (CHR 0x08)
      else if c = CHR ''f'' then Some (CHR 0x0C)
      else if c = CHR ''n'' then Some (CHR 0x0A)
      else if c = CHR ''r'' then Some (CHR 0x0D)
      else if c = CHR ''t'' then Some (CHR 0x09)
      else None)"

text \<open>What the lexer does with the code unit \<open>c\<close> when no token is open.\<close>

definition lex_start :: "char \<Rightarrow> (lstate \<times> token list) option" where
  "lex_start c =
     (if is_json_ws c then Some (LStart, [])
      else if c = CHR 0x22 then Some (LStr [], [])
      else if is_digit c \<or> c = CHR ''-'' then Some (LNum [c], [])
      else if is_lower_az c then Some (LLit [c], [])
      else (case punct_token c of Some t \<Rightarrow> Some (LStart, [t]) | None \<Rightarrow> None))"

fun lex :: "lstate \<Rightarrow> token list \<Rightarrow> string \<Rightarrow> token list option" where
  "lex LStart acc [] = Some (rev acc)"
| "lex (LNum n) acc [] =
     (case number_of (rev n) of Some r \<Rightarrow> Some (rev (TNum r # acc)) | None \<Rightarrow> None)"
| "lex (LLit l) acc [] =
     (case literal_of (rev l) of Some t \<Rightarrow> Some (rev (t # acc)) | None \<Rightarrow> None)"
| "lex (LStr s) acc [] = None"
| "lex (LEsc s) acc [] = None"
| "lex (LUni s ds) acc [] = None"
| "lex LStart acc (c # cs) =
     (case lex_start c of
        Some (st, ts) \<Rightarrow> lex st (ts @ acc) cs
      | None \<Rightarrow> None)"
| "lex (LStr s) acc (c # cs) =
     (if c = CHR 0x22 then lex LStart (TStr (rev s) # acc) cs
      else if c = CHR 0x5C then lex (LEsc s) acc cs
      else if (of_char c :: nat) < 32 then None
      else lex (LStr (c # s)) acc cs)"
| "lex (LEsc s) acc (c # cs) =
     (if c = CHR ''u'' then lex (LUni s []) acc cs
      else (case escape_char c of
              Some e \<Rightarrow> lex (LStr (e # s)) acc cs
            | None \<Rightarrow> None))"
| "lex (LUni s ds) acc (c # cs) =
     (case hex_val c of
        None \<Rightarrow> None
      | Some d \<Rightarrow>
          if length ds = 3
          then lex (LStr (char_of (foldl (\<lambda>a x. 16 * a + x) 0 (ds @ [d])) # s)) acc cs
          else lex (LUni s (ds @ [d])) acc cs)"
| "lex (LNum n) acc (c # cs) =
     (if is_number_char c then lex (LNum (c # n)) acc cs
      else (case number_of (rev n) of
              None \<Rightarrow> None
            | Some r \<Rightarrow>
                (case lex_start c of
                   Some (st, ts) \<Rightarrow> lex st (ts @ TNum r # acc) cs
                 | None \<Rightarrow> None)))"
| "lex (LLit l) acc (c # cs) =
     (if is_lower_az c then lex (LLit (c # l)) acc cs
      else (case literal_of (rev l) of
              None \<Rightarrow> None
            | Some t \<Rightarrow>
                (case lex_start c of
                   Some (st, ts) \<Rightarrow> lex st (ts @ t # acc) cs
                 | None \<Rightarrow> None)))"

subsection \<open>The parser\<close>

text \<open>
  The parser reads one token at a time and keeps the open arrays and objects on a stack,
  innermost first, each with the elements read so far in reverse order.
\<close>

datatype frame =
  FArr "jsval list" | FObj "(string \<times> jsval) list" | FObjKey "(string \<times> jsval) list" string

datatype pstate =
  ExpValue "frame list" | ArrStart "frame list" | ObjStart "frame list"
  | ExpKey "frame list" | ExpColon "frame list" | AfterVal "frame list" | Done jsval

fun deliver :: "jsval \<Rightarrow> frame list \<Rightarrow> pstate option" where
  "deliver v [] = Some (Done v)"
| "deliver v (FArr es # st) = Some (AfterVal (FArr (v # es) # st))"
| "deliver v (FObjKey ms k # st) = Some (AfterVal (FObj ((k, v) # ms) # st))"
| "deliver v (FObj ms # st) = None"

fun value_token :: "token \<Rightarrow> frame list \<Rightarrow> pstate option" where
  "value_token (TStr s) st = deliver (Str s) st"
| "value_token (TNum r) st = deliver (Num r) st"
| "value_token TTrue st = deliver (Bool True) st"
| "value_token TFalse st = deliver (Bool False) st"
| "value_token TNull st = deliver Null st"
| "value_token TLBracket st = Some (ArrStart (FArr [] # st))"
| "value_token TLBrace st = Some (ObjStart (FObj [] # st))"
| "value_token TRBrace st = None"
| "value_token TRBracket st = None"
| "value_token TColon st = None"
| "value_token TComma st = None"

fun key_token :: "token \<Rightarrow> frame list \<Rightarrow> pstate option" where
  "key_token (TStr k) (FObj ms # st) = Some (ExpColon (FObjKey ms k # st))"
| "key_token t st = None"

fun pstep :: "pstate \<Rightarrow> token \<Rightarrow> pstate option" where
  "pstep (ExpValue st) t = value_token t st"
| "pstep (ArrStart st) t =
     (if t = TRBracket then (case st of FArr es # st' \<Rightarrow> deliver (Arr []) st' | _ \<Rightarrow> None)
      else value_token t st)"
| "pstep (ObjStart st) t =
     (if t = TRBrace then (case st of FObj ms # st' \<Rightarrow> deliver (Obj []) st' | _ \<Rightarrow> None)
      else key_token t st)"
| "pstep (ExpKey st) t = key_token t st"
| "pstep (ExpColon st) t = (if t = TColon then Some (ExpValue st) else None)"
| "pstep (AfterVal st) t =
     (case st of
        FArr es # st' \<Rightarrow>
          if t = TComma then Some (ExpValue st)
          else if t = TRBracket then deliver (Arr (rev es)) st'
          else None
      | FObj ms # st' \<Rightarrow>
          if t = TComma then Some (ExpKey st)
          else if t = TRBrace then deliver (obj_of_members (rev ms)) st'
          else None
      | _ \<Rightarrow> None)"
| "pstep (Done v) t = None"

fun run_parser :: "pstate \<Rightarrow> token list \<Rightarrow> pstate option" where
  "run_parser ps [] = Some ps"
| "run_parser ps (t # ts) = (case pstep ps t of None \<Rightarrow> None | Some ps' \<Rightarrow> run_parser ps' ts)"

text \<open>\<open>JSON.parse(text)\<close>: the value, or the \<open>SyntaxError\<close> it throws.\<close>

definition JSON_parse :: "string \<Rightarrow> exn + jsval" where
  "JSON_parse s =
     (case lex LStart [] s of
        None \<Rightarrow> Inl (SyntaxError ''Unexpected token in JSON'')
      | Some ts \<Rightarrow>
          (case run_parser (ExpValue []) ts of
             Some (Done v) \<Rightarrow> Inr v
           | _ \<Rightarrow> Inl (SyntaxError ''Unexpected end of JSON input'')))"

section \<open>Documents and selectors\<close>

text \<open>
  A parsed document is the tree of its elements and text nodes; an element has its tag
  name in lower case, as the HTML parser stores it, its attributes and its children.
  All elements are HTML elements. Comments carry nothing that the code reads and are
  left out.
\<close>

type_synonym attrs = "(string \<times> string) list"

datatype node = Element string attrs "node list" | TextNode string

fun textContent :: "node \<Rightarrow> string" where
  "textContent (TextNode t) = t"
| "textContent (Element tg ats cs) = concat (map textContent cs)"

text \<open>
  An element as the code meets it: with its ancestors, nearest first, and its next
  element sibling, which \<open>closest\<close> and \<open>nextElementSibling\<close> read.
\<close>

record elem =
  e_tag :: string
  e_attrs :: attrs
  e_children :: "node list"
  e_ancestors :: "(string \<times> attrs) list"
  e_next :: "(string \<times> attrs) option"

fun next_element :: "node list \<Rightarrow> (string \<times> attrs) option" where
  "next_element [] = None"
| "next_element (TextNode t # rest) = next_element rest"
| "next_element (Element tg ats cs # rest) = Some (tg, ats)"

text \<open>The elements below a list of sibling nodes, in document order.\<close>

fun elems_of :: "(string \<times> attrs) list \<Rightarrow> node list \<Rightarrow> elem list" where
  "elems_of anc [] = []"
| "elems_of anc (TextNode t # rest) = elems_of anc rest"
| "elems_of anc (Element tg ats cs # rest) =
     \<lparr>e_tag = tg, e_attrs = ats, e_children = cs, e_ancestors = anc,
      e_next = next_element rest\<rparr>
     # elems_of ((tg, ats) # anc) cs @ elems_of anc rest"

definition elem_node :: "elem \<Rightarrow> node" where
  "elem_node e = Element (e_tag e) (e_attrs e) (e_children e)"

definition elem_text :: "elem \<Rightarrow> string" where
  "elem_text e = textContent (elem_node e)"

text \<open>\<open>getAttribute\<close> gives \<open>null\<close>, here \<open>None\<close>, for a missing attribute.\<close>

definition getAttribute :: "elem \<Rightarrow> string \<Rightarrow> string option" where
  "getAttribute e name = map_of (e_attrs e) name"

definition hasAttribute :: "elem \<Rightarrow> string \<Rightarrow> bool" where
  "hasAttribute e name = (map_of (e_attrs e) name \<noteq> None)"

text \<open>\<open>a || b\<close> on strings that may be \<open>null\<close>: \<open>null\<close> and the empty string are falsy.\<close>

definition truthy_str :: "string option \<Rightarrow> bool" where
  "truthy_str a = (a \<noteq> None \<and> a \<noteq> Some [])"

definition or_str :: "string option \<Rightarrow> string option \<Rightarrow> string option" where
  "or_str a b = (if truthy_str a then a else b)"

text \<open>
  The selectors the code uses: a list, separated by commas, of chains of compound
  selectors joined by the descendant combinator. Names and values are compared as they
  are written.
\<close>

datatype simple_sel =
  Tag string | Class string | Ident string | HasAttr string | AttrEq string string
  | AttrContains string string

type_synonym compound = "simple_sel list"
type_synonym complex = "compound list"
type_synonym selector = "complex list"

definition is_ascii_ws :: "char \<Rightarrow> bool" where
  "is_ascii_ws c = (of_char c \<in> {9, 10, 12, 13, 32 :: nat})"

function class_tokens_acc :: "string \<Rightarrow> string \<Rightarrow> string list" where
  "class_tokens_acc acc [] = (if acc = [] then [] else [rev acc])"
| "class_tokens_acc acc (c # cs) =
     (if is_ascii_ws c
      then (if acc = [] then [] else [rev acc]) @ class_tokens_acc [] cs
      else class_tokens_acc (c # acc) cs)"
  by pat_completeness auto
termination
  by (relation "measure (\<lambda>(acc, s). length s)") auto

definition class_tokens :: "attrs \<Rightarrow> string list" where
  "class_tokens ats = (case map_of ats ''class'' of None \<Rightarrow> [] | Some v \<Rightarrow> class_tokens_acc [] v)"

fun matches_simple :: "string \<times> attrs \<Rightarrow> simple_sel \<Rightarrow> bool" where
  "matches_simple (tg, ats) (Tag t) = (tg = t)"
| "matches_simple (tg, ats) (Class c) = (c \<in> set (class_tokens ats))"
| "matches_simple (tg, ats) (Ident i) = (map_of ats ''id'' = Some i)"
| "matches_simple (tg, ats) (HasAttr a) = (map_of ats a \<noteq> None)"
| "matches_simple (tg, ats) (AttrEq a v) = (map_of ats a = Some v)"
| "matches_simple (tg, ats) (AttrContains a v) =
     (case map_of ats a of None \<Rightarrow> False | Some x \<Rightarrow> v \<noteq> [] \<and> includes_str x v)"

definition matches_compound :: "string \<times> attrs \<Rightarrow> compound \<Rightarrow> bool" where
  "matches_compound ta c = list_all (matches_simple ta) c"

text \<open>
  The outer compounds of a chain, innermost first, against the ancestors, nearest
  first: each compound takes the nearest ancestor that matches it.
\<close>

fun matches_chain :: "compound list \<Rightarrow> (string \<times> attrs) list \<Rightarrow> bool" where
  "matches_chain [] anc = True"
| "matches_chain (c # cs) [] = False"
| "matches_chain (c # cs) (a # anc) =
     (if matches_compound a c then matches_chain cs anc else matches_chain (c # cs) anc)"

definition matches_complex :: "elem \<Rightarrow> complex \<Rightarrow> bool" where
  "matches_complex e chain =
     (case rev chain of
        [] \<Rightarrow> False
      | c # outer \<Rightarrow>
          matches_compound (e_tag e, e_attrs e) c \<and> matches_chain outer (e_ancestors e))"

definition matches :: "elem \<Rightarrow> selector \<Rightarrow> bool" where
  "matches e sel = list_ex (matches_complex e) sel"

text \<open>
  \<open>querySelectorAll\<close> and \<open>querySelector\<close> on the document, whose root element is \<open>d\<close>.
\<close>

definition all_elements :: "node \<Rightarrow> elem list" where
  "all_elements d = elems_of [] [d]"

definition querySelectorAll :: "node \<Rightarrow> selector \<Rightarrow> elem list" where
  "querySelectorAll d sel = filter (\<lambda>e. matches e sel) (all_elements d)"

definition querySelector :: "node \<Rightarrow> selector \<Rightarrow> elem option" where
  "querySelector d sel =
     (case querySelectorAll d sel of [] \<Rightarrow> None | e # _ \<Rightarrow> Some e)"

text \<open>\<open>e.closest(s)\<close> for a compound selector: the element itself or an ancestor.\<close>

definition closest :: "elem \<Rightarrow> compound \<Rightarrow> bool" where
  "closest e c =
     list_ex (\<lambda>ta. matches_compound ta c) ((e_tag e, e_attrs e) # e_ancestors e)"

text \<open>Short forms for the selectors of the source.\<close>

definition sel_tag :: "string \<Rightarrow> selector" where
  "sel_tag t = [[[Tag t]]]"

definition sel_class :: "string \<Rightarrow> selector" where
  "sel_class c = [[[Class c]]]"

definition sel_id :: "string \<Rightarrow> selector" where
  "sel_id i = [[[Ident i]]]"

definition sel_attr :: "string \<Rightarrow> string \<Rightarrow> selector" where
  "sel_attr a v = [[[AttrEq a v]]]"

definition sel_has :: "string \<Rightarrow> selector" where
  "sel_has a = [[[HasAttr a]]]"

definition sel_tag_attr :: "string \<Rightarrow> string \<Rightarrow> string \<Rightarrow> selector" where
  "sel_tag_attr t a v = [[[Tag t, AttrEq a v]]]"

definition exists_sel :: "node \<Rightarrow> selector \<Rightarrow> bool" where
  "exists_sel d sel = (querySelector d sel \<noteq> None)"

text \<open>
  \<open>toLowerCase()\<close> on the code units below U+0100: the letters \<open>A\<close> to \<open>Z\<close>, and U+00C0
  to U+00DE but for the multiplication sign U+00D7.
\<close>

definition lower_char :: "char \<Rightarrow> char" where
  "lower_char c =
     (let n = (of_char c :: nat)
      in if (65 \<le> n \<and> n \<le> 90) \<or> (192 \<le> n \<and> n \<le> 222 \<and> n \<noteq> 215) then char_of (n + 32)
         else c)"

definition toLowerCase :: "string \<Rightarrow> string" where
  "toLowerCase s = map lower_char s"

text \<open>
  \<open>parseInt(s)\<close> and \<open>parseInt(s, 10)\<close>; \<open>None\<close> is \<open>NaN\<close>. Leading white space is skipped,
  a sign is read, and the digits up to the first other character count. Without a
  radix, a prefix \<open>0x\<close> or \<open>0X\<close> announces hexadecimal digits.
\<close>

definition hex_digits_val :: "string \<Rightarrow> nat" where
  "hex_digits_val ds = foldl (\<lambda>acc c. 16 * acc + (case hex_val c of Some d \<Rightarrow> d | None \<Rightarrow> 0)) 0 ds"

definition parseInt :: "bool \<Rightarrow> string \<Rightarrow> int option" where
  "parseInt radix10 s =
     (let s1 = dropWhile is_space s;
          neg = (s1 \<noteq> [] \<and> hd s1 = CHR ''-'');
          s2 = (if s1 \<noteq> [] \<and> (hd s1 = CHR ''-'' \<or> hd s1 = CHR ''+'') then tl s1 else s1);
          hex = (\<not> radix10 \<and> (startsWith s2 ''0x'' \<or> startsWith s2 ''0X''));
          ds = (if hex then takeWhile (\<lambda>c. hex_val c \<noteq> None) (drop 2 s2)
                else takeWhile is_digit s2);
          n = (if hex then int (hex_digits_val ds) else int (digits_val ds))
      in if ds = [] then None else Some (if neg then - n else n))"

section \<open>The content type detector\<close>

definition videoSites :: "string list" where
  "videoSites = [''youtube.com'', ''youtu.be'', ''vimeo.com'', ''dailymotion.com'',
     ''twitch.tv'', ''ted.com'', ''netflix.com'', ''hulu.com'', ''disneyplus.com'',
     ''hbomax.com'', ''primevideo.com'', ''video'']"

definition socialSites :: "string list" where
  "socialSites = [''twitter.com'', ''x.com'', ''facebook.com'', ''instagram.com'',
     ''linkedin.com'', ''pinterest.com'', ''reddit.com'', ''tumblr.com'', ''threads.net'',
     ''tiktok.com'', ''snapchat.com'', ''mastodon'']"

definition ecommerceSites :: "string list" where
  "ecommerceSites = [''amazon.com'', ''ebay.com'', ''walmart.com'', ''etsy.com'',
     ''shopify.com'', ''bestbuy.com'', ''target.com'', ''aliexpress.com'', ''newegg.com'',
     ''wayfair.com'']"

definition isVideoSite :: "string \<Rightarrow> bool" where
  "isVideoSite url = list_ex (\<lambda>site. includes_str (toLowerCase url) site) videoSites"

definition isSocialSite :: "string \<Rightarrow> bool" where
  "isSocialSite url = list_ex (\<lambda>site. includes_str (toLowerCase url) site) socialSites"

definition isEcommerceSite :: "string \<Rightarrow> bool" where
  "isEcommerceSite url =
     (let urlLower = toLowerCase url
      in list_ex (\<lambda>site. includes_str urlLower site) ecommerceSites
         \<or> includes_str urlLower ''/product/''
         \<or> includes_str urlLower ''/products/''
         \<or> includes_str urlLower ''/shop/''
         \<or> includes_str urlLower ''/item/'')"

definition jsonld_selector :: selector where
  "jsonld_selector = sel_tag_attr ''script'' ''type'' ''application/ld+json''"

text \<open>\<open>items.some(item => types.includes(item['@type']))\<close>; reading from \<open>null\<close> throws.\<close>

fun some_has_type :: "string list \<Rightarrow> jsval list \<Rightarrow> exn + bool" where
  "some_has_type types [] = Inr False"
| "some_has_type types (item # items) =
     (case get_prop item ''@type'' of
        Inl e \<Rightarrow> Inl e
      | Inr t \<Rightarrow> if t \<in> set (map Str types) then Inr True else some_has_type types items)"

text \<open>
  The body of the \<open>try\<close> in the loops of \<open>hasArticleSchema\<close> and \<open>hasProductSchema\<close>, for
  one script: \<open>Inr True\<close> is the \<open>return true\<close>.
\<close>

definition schema_check :: "string list \<Rightarrow> string list \<Rightarrow> string \<Rightarrow> exn + bool" where
  "schema_check direct_types item_types txt =
     bind_exn (JSON_parse txt) (\<lambda>data.
       bind_exn (get_prop data ''@type'') (\<lambda>t.
         if t \<in> set (map Str direct_types) then Inr True
         else (case data of
                 Arr items \<Rightarrow> some_has_type item_types items
               | _ \<Rightarrow> Inr False)))"

fun schema_loop :: "(string \<Rightarrow> exn + bool) \<Rightarrow> string list \<Rightarrow> nat \<Rightarrow> bool" where
  "schema_loop check [] errorCount = False"
| "schema_loop check (txt # rest) errorCount =
     (case check txt of
        Inr True \<Rightarrow> True
      | Inr False \<Rightarrow> schema_loop check rest errorCount
      | Inl e \<Rightarrow> if errorCount + 1 > 5 then False else schema_loop check rest (errorCount + 1))"

definition hasArticleSchema :: "node \<Rightarrow> bool" where
  "hasArticleSchema doc =
     schema_loop
       (schema_check [''Article'', ''NewsArticle'', ''BlogPosting'', ''ScholarlyArticle'',
          ''TechArticle''] [''Article'', ''NewsArticle'', ''BlogPosting''])
       (map elem_text (querySelectorAll doc jsonld_selector)) 0"

definition hasProductSchema :: "node \<Rightarrow> bool" where
  "hasProductSchema doc =
     schema_loop
       (schema_check [''Product'', ''Offer'', ''ProductModel''] [''Product'', ''Offer''])
       (map elem_text (querySelectorAll doc jsonld_selector)) 0"

definition articleSelectors :: "selector list" where
  "articleSelectors = [sel_class ''article'', sel_class ''post'', sel_class ''blog-post'',
     sel_class ''news-article'', sel_class ''story'', sel_class ''entry-content'',
     [[[Tag ''main''], [Tag ''article'']]], [[[Ident ''content''], [Tag ''article'']]],
     sel_attr ''role'' ''article'']"

definition hasArticleStructure :: "node \<Rightarrow> bool" where
  "hasArticleStructure doc =
     (if exists_sel doc (sel_tag ''article'') then True
      else if list_ex (exists_sel doc) articleSelectors then True
      else
        let hasAuthor = (exists_sel doc (sel_attr ''rel'' ''author'')
                         \<or> exists_sel doc (sel_class ''author'')
                         \<or> exists_sel doc (sel_attr ''itemprop'' ''author''));
            hasDate = (exists_sel doc (sel_attr ''property'' ''datePublished'')
                       \<or> exists_sel doc (sel_class ''date'')
                       \<or> exists_sel doc (sel_tag ''time'')
                       \<or> exists_sel doc (sel_attr ''itemprop'' ''datePublished''))
        in hasAuthor \<and> hasDate)"

definition productSelectors :: "selector list" where
  "productSelectors = [sel_class ''product'', sel_class ''product-details'',
     sel_class ''product-info'', sel_class ''product-description'', sel_class ''product-price'',
     sel_class ''add-to-cart'', sel_class ''buy-now'', sel_attr ''itemprop'' ''price'',
     sel_attr ''itemprop'' ''offers'', sel_class ''price'', sel_class ''cart'',
     sel_id ''add-to-cart'']"

definition hasProductStructure :: "node \<Rightarrow> bool" where
  "hasProductStructure doc = (length (filter (exists_sel doc) productSelectors) \<ge> 3)"

definition gallerySelectors :: "selector list" where
  "gallerySelectors = [sel_class ''gallery'', sel_class ''slideshow'', sel_class ''carousel'',
     sel_class ''images'', sel_class ''photos'', sel_has ''data-gallery'',
     sel_class ''image-gallery'', sel_class ''photo-gallery'']"

text \<open>
  The filter of \<open>hasGalleryStructure\<close>. A width that is \<open>NaN\<close> or zero is falsy, and no
  comparison with \<open>NaN\<close> holds.
\<close>

definition attr_or :: "elem \<Rightarrow> string \<Rightarrow> string \<Rightarrow> string" where
  "attr_or e name dflt =
     (case or_str (getAttribute e name) (Some dflt) of Some v \<Rightarrow> v | None \<Rightarrow> dflt)"

definition num_gt :: "int option \<Rightarrow> int \<Rightarrow> bool" where
  "num_gt n k = (case n of None \<Rightarrow> False | Some v \<Rightarrow> v > k)"

definition num_falsy :: "int option \<Rightarrow> bool" where
  "num_falsy n = (n = None \<or> n = Some 0)"

definition isSignificantImage :: "elem \<Rightarrow> bool" where
  "isSignificantImage img =
     (let width = parseInt False (attr_or img ''width'' ''0'');
          height = parseInt False (attr_or img ''height'' ''0'');
          src = attr_or img ''src'' ''''
      in if includes_str src ''tracking'' \<or> includes_str src ''pixel''
            \<or> includes_str src ''icon''
         then False
         else (num_gt width 100 \<and> num_gt height 100) \<or> (num_falsy width \<and> num_falsy height))"

definition hasGalleryStructure :: "node \<Rightarrow> bool" where
  "hasGalleryStructure doc =
     (if list_ex (exists_sel doc) gallerySelectors then True
      else
        let images = querySelectorAll doc (sel_tag ''img'')
        in if length images > 5 \<and> length (filter isSignificantImage images) > 4 then True
           else False)"

definition videoSelectors :: "selector list" where
  "videoSelectors = [sel_class ''video'', sel_class ''video-player'',
     sel_class ''video-container'', sel_class ''player'', sel_has ''data-video'',
     sel_class ''video-embed'', sel_id ''video-player'']"

definition hasVideoStructure :: "node \<Rightarrow> bool" where
  "hasVideoStructure doc =
     (if exists_sel doc (sel_tag ''video'')
         \<or> exists_sel doc [[[Tag ''iframe'', AttrContains ''src'' ''youtube'']]]
         \<or> exists_sel doc [[[Tag ''iframe'', AttrContains ''src'' ''vimeo'']]]
         \<or> exists_sel doc [[[Tag ''iframe'', AttrContains ''src'' ''dailymotion'']]]
      then True
      else list_ex (exists_sel doc) videoSelectors)"

text \<open>The loop of \<open>hasSubstantialText\<close> over the first 50 content blocks.\<close>

fun substantial_loop :: "elem list \<Rightarrow> nat \<Rightarrow> bool" where
  "substantial_loop [] textLength = (textLength > 1000)"
| "substantial_loop (block # rest) textLength =
     (let textLength' = textLength + length (trim (elem_text block))
      in if textLength' > 1000 then True else substantial_loop rest textLength')"

definition hasSubstantialText :: "node \<Rightarrow> bool" where
  "hasSubstantialText doc =
     (let contentBlocks = querySelectorAll doc
            [[[Tag ''p'']], [[Tag ''article'']], [[Class ''content'']], [[Ident ''content'']],
             [[Tag ''main'']]];
          blocksToCheck = min (length contentBlocks) 50
      in substantial_loop (take blocksToCheck contentBlocks) 0)"

text \<open>
  The checks of \<open>detect\<close> on the document, from \<open>hasArticleSchema\<close> on: the steps that
  follow the three checks of the URL.
\<close>

definition detect_dom :: "node \<Rightarrow> string" where
  "detect_dom doc =
     (if hasArticleSchema doc \<or> hasArticleStructure doc then ''article''
      else if hasProductSchema doc \<or> hasProductStructure doc then ''product''
      else if hasGalleryStructure doc then ''gallery''
      else if hasVideoStructure doc then ''video''
      else if hasSubstantialText doc then ''article''
      else ''default'')"

text \<open>
  \<open>detect(dom, url)\<close>; \<open>None\<close> is a missing document. An empty URL is falsy. Whatever
  the body of the \<open>try\<close> throws ends in \<open>'default'\<close>.
\<close>

definition detect :: "node option \<Rightarrow> string \<Rightarrow> exn + string" where
  "detect doc url =
     (case doc of
        None \<Rightarrow> Inr ''default''
      | Some d \<Rightarrow>
          if url = [] then Inr ''default''
          else try_catch
                 (if isVideoSite url then Inr ''video''
                  else if isSocialSite url then Inr ''social''
                  else if isEcommerceSite url then Inr ''product''
                  else Inr (detect_dom d))
                 (\<lambda>error. Inr ''default''))"

text \<open>The values that \<open>detect\<close> documents as its results.\<close>

definition contentTypes :: "string list" where
  "contentTypes = [''article'', ''product'', ''video'', ''social'', ''gallery'', ''default'']"

text \<open>
  One of the names occurs somewhere in the URL, once the URL is in lower case: what the
  three checks of the URL look for.
\<close>

definition url_contains_any :: "string \<Rightarrow> string list \<Rightarrow> bool" where
  "url_contains_any url names = (\<exists>n \<in> set names. \<exists>p q. toLowerCase url = p @ n @ q)"

text \<open>
  The host of an \<open>http\<close> or \<open>https\<close> URL without user or port: what lies between the
  scheme and the first \<open>/\<close>, \<open>?\<close> or \<open>#\<close>. The detector does not compute it; the
  specification speaks of it.
\<close>

definition spec_url_host :: "string \<Rightarrow> string" where
  "spec_url_host url =
     (let after_scheme = (if startsWith url ''https://'' then drop 8 url
                          else if startsWith url ''http://'' then drop 7 url else url)
      in toLowerCase
           (takeWhile (\<lambda>c. c \<noteq> CHR ''/'' \<and> c \<noteq> CHR ''?'' \<and> c \<noteq> CHR ''#'') after_scheme))"

text \<open>The document of \<open><html><head></head><body></body></html>\<close>.\<close>

definition empty_page :: node where
  "empty_page = Element ''html'' [] [Element ''head'' [] [], Element ''body'' [] []]"

section \<open>The image processor\<close>

text \<open>
  The constructor \<open>URL\<close> belongs to the browser. The image processor is given what it
  reads from it: \<open>url_parse u\<close> is the path name and the search string of \<open>new URL(u)\<close>,
  and \<open>url_resolve u b\<close> is \<open>new URL(u, new URL(b).origin).href\<close>; \<open>None\<close> stands for the
  \<open>TypeError\<close> of an invalid URL.
\<close>

record url_api =
  url_parse :: "string \<Rightarrow> (string \<times> string) option"
  url_resolve :: "string \<Rightarrow> string \<Rightarrow> string option"

definition image_extensions :: "string list" where
  "image_extensions = [''.jpg'', ''.jpeg'', ''.png'', ''.gif'', ''.webp'', ''.svg'', ''.bmp'', ''.ico'']"

definition isValidImageUrl :: "url_api \<Rightarrow> string \<Rightarrow> bool" where
  "isValidImageUrl api url =
     (if url = [] then False
      else if startsWith url ''data:'' then length url > 100
      else if startsWith url ''data:image/svg'' then False
      else if startsWith url ''/'' \<or> startsWith url ''./'' \<or> startsWith url ''../'' then True
      else
        (case url_parse api url of
           Some (pathname, search) \<Rightarrow>
             (let path = toLowerCase pathname;
                  hasExtension = list_ex (\<lambda>ext. endsWith path ext) image_extensions;
                  hasImagePattern = (includes_str path ''/image'' \<or> includes_str path ''/img''
                                     \<or> includes_str path ''/photo''
                                     \<or> includes_str search ''image'')
              in hasExtension \<or> hasImagePattern)
         | None \<Rightarrow>
             includes_str url ''.jpg'' \<or> includes_str url ''.png'' \<or> includes_str url ''.gif''
             \<or> includes_str url ''.webp''))"

text \<open>\<open>resolveImageUrl(imageUrl, baseUrl)\<close>; \<open>None\<close> is \<open>null\<close>, also for the base URL.\<close>

definition resolveImageUrl :: "url_api \<Rightarrow> string \<Rightarrow> string option \<Rightarrow> string option" where
  "resolveImageUrl api imageUrl baseUrl =
     (if imageUrl = [] then None
      else if startsWith imageUrl ''http://'' \<or> startsWith imageUrl ''https://'' then Some imageUrl
      else if startsWith imageUrl ''data:'' then Some imageUrl
      else if \<not> truthy_str baseUrl then Some imageUrl
      else (case baseUrl of None \<Rightarrow> Some imageUrl | Some b \<Rightarrow> url_resolve api imageUrl b))"

definition upper_char :: "char \<Rightarrow> char" where
  "upper_char c =
     (let n = (of_char c :: nat) in if 97 \<le> n \<and> n \<le> 122 then char_of (n - 32) else c)"

text \<open>\<open>tagName\<close> of an HTML element: the tag name in upper case.\<close>

definition tagName :: "string \<Rightarrow> string" where
  "tagName tg = map upper_char tg"

definition className :: "attrs \<Rightarrow> string" where
  "className ats = (case map_of ats ''class'' of None \<Rightarrow> [] | Some v \<Rightarrow> v)"

text \<open>
  \<open>calculateImageScore(img)\<close>, step by step. A width or height that is \<open>NaN\<close> or zero
  skips the size rules. The quotient \<open>width / height\<close> is compared as a rational.
\<close>

definition size_score :: "elem \<Rightarrow> int" where
  "size_score img =
     (if hasAttribute img ''width'' \<and> hasAttribute img ''height'' then
        (case (parseInt True (attr_or img ''width'' ''''), parseInt True (attr_or img ''height'' ''''))
         of (Some width, Some height) \<Rightarrow>
              if width \<noteq> 0 \<and> height \<noteq> 0 then
                (if width \<ge> 300 \<and> height \<ge> 200 then 20
                 else if width \<ge> 100 \<and> height \<ge> 100 then 10
                 else if width < 50 \<or> height < 50 then - 30
                 else 0)
                + (let ratio = (of_int width :: rat) / of_int height
                   in if ratio \<ge> 1 / 2 \<and> ratio \<le> 2 then 10 else 0)
              else 0
          | _ \<Rightarrow> 0)
      else 0)"

definition calculateImageScore :: "elem \<Rightarrow> int" where
  "calculateImageScore img =
     (if hasAttribute img ''alt'' \<and> length (trim (attr_or img ''alt'' '''')) > 0 then 10 else 0)
     + size_score img
     + (if closest img [Tag ''figure''] then 15 else 0)
     + (case e_next img of
          None \<Rightarrow> 0
        | Some (tg, ats) \<Rightarrow>
            if tagName tg = ''FIGCAPTION'' \<or> includes_str (className ats) ''caption'' then 15
            else 0)
     + (if closest img [Tag ''article''] \<or> closest img [Tag ''main'']
           \<or> closest img [Class ''content''] \<or> closest img [Class ''post'']
        then 15 else 0)
     + (case getAttribute img ''src'' of
          None \<Rightarrow> 0
        | Some src \<Rightarrow>
            if src = [] then 0
            else
              let srcLower = toLowerCase src
              in if includes_str srcLower ''icon'' \<or> includes_str srcLower ''logo''
                    \<or> includes_str srcLower ''avatar'' \<or> includes_str srcLower ''button''
                    \<or> includes_str srcLower ''badge'' \<or> includes_str srcLower ''sprite''
                 then - 20 else 0)
     + (if hasAttribute img ''loading'' \<and> getAttribute img ''loading'' = Some ''lazy''
           \<and> (closest img [Tag ''header''] \<or> closest img [Tag ''footer'']
                \<or> closest img [Tag ''nav''])
        then - 10 else 0)"

record image =
  src :: string
  alt :: string
  width :: "string option"
  height :: "string option"
  priority :: bool

text \<open>\<open>element.getAttribute(name) || null\<close>.\<close>

definition attr_or_null :: "elem \<Rightarrow> string \<Rightarrow> string option" where
  "attr_or_null e name = (if truthy_str (getAttribute e name) then getAttribute e name else None)"

text \<open>
  The priority selectors, each with the text the source tests with \<open>startsWith\<close>.
\<close>

definition img_src_in :: "simple_sel \<Rightarrow> selector" where
  "img_src_in container = [[[container], [Tag ''img'', HasAttr ''src'']]]"

definition prioritySelectors :: "(string \<times> selector) list" where
  "prioritySelectors =
     [(''meta[property=\"og:image\"]'', sel_tag_attr ''meta'' ''property'' ''og:image''),
      (''meta[name=\"twitter:image\"]'', sel_tag_attr ''meta'' ''name'' ''twitter:image''),
      (''meta[property=\"twitter:image\"]'', sel_tag_attr ''meta'' ''property'' ''twitter:image''),
      (''link[rel=\"image_src\"]'', sel_tag_attr ''link'' ''rel'' ''image_src''),
      (''article img[src]'', img_src_in (Tag ''article'')),
      (''.post-content img[src]'', img_src_in (Class ''post-content'')),
      (''.article-content img[src]'', img_src_in (Class ''article-content'')),
      (''main img[src]'', img_src_in (Tag ''main'')),
      (''.content img[src]'', img_src_in (Class ''content'')),
      (''.entry-content img[src]'', img_src_in (Class ''entry-content''))]"

text \<open>
  The state of \<open>extractImportantImages\<close>: the array \<open>images\<close> and the set \<open>seenUrls\<close>.
  The inner loop over the elements of one priority selector returns the state and
  whether the function has returned from inside the loop.
\<close>

type_synonym img_state = "image list \<times> string list"

definition candidate_url :: "url_api \<Rightarrow> string option \<Rightarrow> string option \<Rightarrow> string option" where
  "candidate_url api src0 baseUrl =
     (case src0 of
        None \<Rightarrow> None
      | Some s \<Rightarrow>
          if s \<noteq> [] \<and> isValidImageUrl api s then
            (case resolveImageUrl api s baseUrl of
               None \<Rightarrow> None
             | Some r \<Rightarrow> if r \<noteq> [] then Some r else None)
          else None)"

definition element_src :: "bool \<Rightarrow> elem \<Rightarrow> string option" where
  "element_src is_meta element =
     (if is_meta then or_str (getAttribute element ''content'') (getAttribute element ''href'')
      else or_str (getAttribute element ''src'') (getAttribute element ''data-src''))"

definition priority_image :: "bool \<Rightarrow> elem \<Rightarrow> string \<Rightarrow> image" where
  "priority_image is_meta element resolvedUrl =
     \<lparr>src = resolvedUrl, alt = attr_or element ''alt'' '''',
      width = (if is_meta then None else attr_or_null element ''width''),
      height = (if is_meta then None else attr_or_null element ''height''),
      priority = True\<rparr>"

fun priority_elements ::
  "url_api \<Rightarrow> bool \<Rightarrow> int \<Rightarrow> string option \<Rightarrow> elem list \<Rightarrow> img_state \<Rightarrow> img_state \<times> bool" where
  "priority_elements api is_meta maxImages baseUrl [] st = (st, False)"
| "priority_elements api is_meta maxImages baseUrl (element # rest) (images, seenUrls) =
     (case candidate_url api (element_src is_meta element) baseUrl of
        None \<Rightarrow> priority_elements api is_meta maxImages baseUrl rest (images, seenUrls)
      | Some resolvedUrl \<Rightarrow>
          if resolvedUrl \<in> set seenUrls
          then priority_elements api is_meta maxImages baseUrl rest (images, seenUrls)
          else
            let images' = images @ [priority_image is_meta element resolvedUrl];
                seenUrls' = resolvedUrl # seenUrls
            in if int (length images') \<ge> maxImages then ((images', seenUrls'), True)
               else priority_elements api is_meta maxImages baseUrl rest (images', seenUrls'))"

fun priority_loop ::
  "url_api \<Rightarrow> node \<Rightarrow> int \<Rightarrow> string option \<Rightarrow> (string \<times> selector) list \<Rightarrow> img_state
     \<Rightarrow> img_state \<times> bool" where
  "priority_loop api doc maxImages baseUrl [] st = (st, False)"
| "priority_loop api doc maxImages baseUrl ((name, sel) # rest) st =
     (case priority_elements api (startsWith name ''meta'' \<or> startsWith name ''link'')
             maxImages baseUrl (querySelectorAll doc sel) st of
        (st', True) \<Rightarrow> (st', True)
      | (st', False) \<Rightarrow> priority_loop api doc maxImages baseUrl rest st')"

text \<open>The second phase: the images that remain, scored, sorted and added.\<close>

record scored_image =
  si_element :: elem
  si_src :: string
  si_score :: int

fun scoredImages :: "url_api \<Rightarrow> string option \<Rightarrow> string list \<Rightarrow> elem list \<Rightarrow> scored_image list" where
  "scoredImages api baseUrl seenUrls [] = []"
| "scoredImages api baseUrl seenUrls (img # rest) =
     (case candidate_url api (element_src False img) baseUrl of
        None \<Rightarrow> scoredImages api baseUrl seenUrls rest
      | Some resolvedUrl \<Rightarrow>
          if resolvedUrl \<in> set seenUrls then scoredImages api baseUrl seenUrls rest
          else
            let score = calculateImageScore img
            in if score > 0
               then \<lparr>si_element = img, si_src = resolvedUrl, si_score = score\<rparr>
                    # scoredImages api baseUrl seenUrls rest
               else scoredImages api baseUrl seenUrls rest)"

fun insert_by_score :: "scored_image \<Rightarrow> scored_image list \<Rightarrow> scored_image list" where
  "insert_by_score x [] = [x]"
| "insert_by_score x (y # ys) =
     (if si_score x \<ge> si_score y then x # y # ys else y # insert_by_score x ys)"

fun sort_scored :: "scored_image list \<Rightarrow> scored_image list" where
  "sort_scored [] = []"
| "sort_scored (x # xs) = insert_by_score x (sort_scored xs)"

fun add_scored :: "int \<Rightarrow> scored_image list \<Rightarrow> img_state \<Rightarrow> img_state" where
  "add_scored maxImages [] st = st"
| "add_scored maxImages (x # xs) (images, seenUrls) =
     (if int (length images) \<ge> maxImages then (images, seenUrls)
      else add_scored maxImages xs
             (images @ [\<lparr>src = si_src x, alt = attr_or (si_element x) ''alt'' '''',
                         width = attr_or_null (si_element x) ''width'',
                         height = attr_or_null (si_element x) ''height'',
                         priority = False\<rparr>],
              si_src x # seenUrls))"

definition remaining_selector :: selector where
  "remaining_selector = [[[Tag ''img'', HasAttr ''src'']], [[Tag ''img'', HasAttr ''data-src'']]]"

definition extractImportantImages ::
  "url_api \<Rightarrow> node option \<Rightarrow> int \<Rightarrow> string option \<Rightarrow> image list" where
  "extractImportantImages api dom0 maxImages baseUrl =
     (case dom0 of
        None \<Rightarrow> []
      | Some doc \<Rightarrow>
          (case priority_loop api doc maxImages baseUrl prioritySelectors ([], []) of
             ((images, seenUrls), True) \<Rightarrow> images
           | ((images, seenUrls), False) \<Rightarrow>
               if int (length images) < maxImages then
                 fst (add_scored maxImages
                        (sort_scored
                           (scoredImages api baseUrl seenUrls
                              (querySelectorAll doc remaining_selector)))
                        (images, seenUrls))
               else images))"

text \<open>
  What the first phase keeps true of its state: the sources are pairwise distinct, all
  of them are in \<open>seenUrls\<close>, and every image was taken as a priority image from a
  source that passed the validity check and the resolution.
\<close>

definition src_ok :: "url_api \<Rightarrow> string option \<Rightarrow> string \<Rightarrow> bool" where
  "src_ok api baseUrl r = (\<exists>s0. candidate_url api s0 baseUrl = Some r)"

definition phase1_inv :: "url_api \<Rightarrow> string option \<Rightarrow> img_state \<Rightarrow> bool" where
  "phase1_inv api baseUrl st =
     (distinct (map src (fst st)) \<and> src ` set (fst st) \<subseteq> set (snd st)
      \<and> (\<forall>i \<in> set (fst st). priority i \<and> src_ok api baseUrl (src i)))"

text \<open>
  A \<open>URL\<close> for the examples: it reads plain \<open>http\<close> and \<open>https\<close> URLs without user, port,
  dot segments or escapes, and rejects every other text.
\<close>

definition plain_origin :: "string \<Rightarrow> string option" where
  "plain_origin u =
     (let host = takeWhile (\<lambda>c. c \<noteq> CHR ''/'' \<and> c \<noteq> CHR ''?'' \<and> c \<noteq> CHR ''#'')
      in if startsWith u ''https://'' \<and> host (drop 8 u) \<noteq> []
         then Some (''https://'' @ host (drop 8 u))
         else if startsWith u ''http://'' \<and> host (drop 7 u) \<noteq> []
         then Some (''http://'' @ host (drop 7 u))
         else None)"

definition plain_url_api :: url_api where
  "plain_url_api =
     \<lparr>url_parse = (\<lambda>u.
        case plain_origin u of
          None \<Rightarrow> None
        | Some origin \<Rightarrow>
            let rest = drop (length origin) u;
                path = takeWhile (\<lambda>c. c \<noteq> CHR ''?'' \<and> c \<noteq> CHR ''#'') rest;
                search = takeWhile (\<lambda>c. c \<noteq> CHR ''#'')
                           (dropWhile (\<lambda>c. c \<noteq> CHR ''?'' \<and> c \<noteq> CHR ''#'') rest)
            in Some (if path = [] then ''/'' else path, search)),
      url_resolve = (\<lambda>u b.
        case plain_origin b of
          None \<Rightarrow> None
        | Some origin \<Rightarrow> Some (if startsWith u ''/'' then origin @ u else origin @ ''/'' @ u))\<rparr>"

definition page :: "node list \<Rightarrow> node list \<Rightarrow> node" where
  "page head_nodes body_nodes =
     Element ''html'' [] [Element ''head'' [] head_nodes, Element ''body'' [] body_nodes]"


definition icons_page :: node where
  "icons_page = page []
     [Element ''img'' [(''src'', ''/icon.png'')] [],
      Element ''img'' [(''src'', ''/b.jpg'')] []]"

definition twins_page :: node where
  "twins_page = page []
     [Element ''img'' [(''src'', ''/a.jpg''), (''alt'', ''first'')] [],
      Element ''img'' [(''src'', ''/a.jpg''), (''alt'', ''second'')] []]"

section \<open>The schema detector\<close>

text \<open>
  \<open>sanitizeJsonLdContent(content)\<close>: three global replacements. The first two delete
  the code units U+0000 to U+0008, U+000B, U+000C, U+000E to U+001F, and U+007F to
  U+009F; the third turns every two backslashes in a row into one, from left to right.
\<close>

definition is_c0_control :: "char \<Rightarrow> bool" where
  "is_c0_control c =
     (let n = (of_char c :: nat) in n \<le> 8 \<or> n = 11 \<or> n = 12 \<or> (14 \<le> n \<and> n \<le> 31))"

definition is_c1_control :: "char \<Rightarrow> bool" where
  "is_c1_control c = (let n = (of_char c :: nat) in 127 \<le> n \<and> n \<le> 159)"

fun collapse_backslashes :: "string \<Rightarrow> string" where
  "collapse_backslashes (a # b # cs) =
     (if a = CHR 0x5C \<and> b = CHR 0x5C then CHR 0x5C # collapse_backslashes cs
      else a # collapse_backslashes (b # cs))"
| "collapse_backslashes cs = cs"

definition strip_controls :: "string \<Rightarrow> string" where
  "strip_controls content =
     filter (\<lambda>c. \<not> is_c1_control c) (filter (\<lambda>c. \<not> is_c0_control c) content)"

definition sanitizeJsonLdContent :: "string \<Rightarrow> string" where
  "sanitizeJsonLdContent content = collapse_backslashes (strip_controls content)"

text \<open>Two backslashes in a row somewhere in the text.\<close>

fun has_double_backslash :: "string \<Rightarrow> bool" where
  "has_double_backslash (a # b # cs) =
     ((a = CHR 0x5C \<and> b = CHR 0x5C) \<or> has_double_backslash (b # cs))"
| "has_double_backslash cs = False"

text \<open>
  \<open>normalizeSchema(schema)\<close>. A value that is no object comes back as it is; the copy of
  an array by \<open>{...schema}\<close> is an object with the indices as keys.
\<close>

definition normalizeSchema :: "jsval \<Rightarrow> jsval" where
  "normalizeSchema schema =
     (case schema of
        Obj ms \<Rightarrow>
          (case map_of ms ''@type'' of
             Some (Arr [t]) \<Rightarrow> Obj (obj_set ms ''@type'' t)
           | _ \<Rightarrow> Obj ms)
      | Arr xs \<Rightarrow> Obj (zip (map digits_of [0..<length xs]) xs)
      | _ \<Rightarrow> schema)"

definition priorityTypes :: "string list" where
  "priorityTypes = [''Article'', ''NewsArticle'', ''BlogPosting'', ''ScholarlyArticle'',
     ''Product'', ''Review'', ''AggregateRating'', ''Recipe'',
     ''VideoObject'', ''Movie'', ''TVEpisode'', ''TVSeries'',
     ''Person'', ''Organization'', ''Event'', ''Place'',
     ''WebPage'', ''ItemList'', ''ImageGallery'', ''Book'']"

text \<open>
  The type of a schema that is truthy; such a value has a property \<open>'@type'\<close> only when
  it is an object, and reading it does not throw.
\<close>

definition type_of_schema :: "jsval \<Rightarrow> jsval" where
  "type_of_schema schema = (case schema of Obj ms \<Rightarrow> (case map_of ms ''@type'' of Some t \<Rightarrow> t | None \<Rightarrow> Undefined) | _ \<Rightarrow> Undefined)"

definition schema_has_type :: "string \<Rightarrow> jsval \<Rightarrow> bool" where
  "schema_has_type t schema =
     (if \<not> truthy schema then False
      else
        let schemaType = type_of_schema schema
        in if \<not> truthy schemaType then False
           else schemaType = Str t
                \<or> (case schemaType of Arr ts \<Rightarrow> Str t \<in> set ts | _ \<Rightarrow> False))"

fun find_priority :: "string list \<Rightarrow> jsval list \<Rightarrow> jsval option" where
  "find_priority [] schemas = None"
| "find_priority (t # ts) schemas =
     (case find (schema_has_type t) schemas of
        Some found \<Rightarrow> Some (normalizeSchema found)
      | None \<Rightarrow> find_priority ts schemas)"

text \<open>\<open>findRelevantSchema(schemas)\<close>; \<open>Null\<close> is the \<open>null\<close> it returns.\<close>

definition findRelevantSchema :: "jsval \<Rightarrow> jsval" where
  "findRelevantSchema schemas =
     (case schemas of
        Arr xs \<Rightarrow>
          if xs = [] then Null
          else
            (case find_priority priorityTypes xs of
               Some s \<Rightarrow> s
             | None \<Rightarrow>
                 (case find (\<lambda>schema. truthy schema \<and> truthy (type_of_schema schema)) xs of
                    Some schema \<Rightarrow> normalizeSchema schema
                  | None \<Rightarrow> Null))
      | _ \<Rightarrow> Null)"

text \<open>
  The body of the \<open>try\<close> for one script of \<open>extractJsonLdSchema\<close>: \<open>Inr (Some s)\<close> is
  \<open>return s\<close>, \<open>Inr None\<close> goes on to the next script, \<open>Inl\<close> is what the \<open>catch\<close> then
  meets, which goes on to the next script as well.
\<close>

definition jsonld_block :: "string \<Rightarrow> exn + jsval option" where
  "jsonld_block script_text =
     (let textContent = trim script_text
      in if textContent = [] then Inr None
         else
           bind_exn (JSON_parse (sanitizeJsonLdContent textContent)) (\<lambda>jsonData.
             case jsonData of
               Arr xs \<Rightarrow>
                 (let relevant = findRelevantSchema jsonData
                  in if truthy relevant then Inr (Some relevant) else Inr None)
             | _ \<Rightarrow>
                 bind_exn (get_prop jsonData ''@graph'') (\<lambda>graph.
                   if truthy graph then
                     (let relevant = findRelevantSchema graph
                      in if truthy relevant then Inr (Some relevant) else Inr None)
                   else
                     bind_exn (get_prop jsonData ''@type'') (\<lambda>t.
                       if truthy t then Inr (Some (normalizeSchema jsonData))
                       else Inr None))))"

text \<open>
  What the body of that \<open>try\<close> does with the value that \<open>JSON.parse\<close> returned.
\<close>

definition schema_from_json :: "jsval \<Rightarrow> exn + jsval option" where
  "schema_from_json jsonData =
     (case jsonData of
        Arr xs \<Rightarrow>
          (let relevant = findRelevantSchema jsonData
           in if truthy relevant then Inr (Some relevant) else Inr None)
      | _ \<Rightarrow>
          bind_exn (get_prop jsonData ''@graph'') (\<lambda>graph.
            if truthy graph then
              (let relevant = findRelevantSchema graph
               in if truthy relevant then Inr (Some relevant) else Inr None)
            else
              bind_exn (get_prop jsonData ''@type'') (\<lambda>t.
                if truthy t then Inr (Some (normalizeSchema jsonData))
                else Inr None)))"

fun jsonld_scan :: "string list \<Rightarrow> jsval" where
  "jsonld_scan [] = Null"
| "jsonld_scan (script_text # rest) =
     (case jsonld_block script_text of
        Inr (Some schema) \<Rightarrow> schema
      | Inr None \<Rightarrow> jsonld_scan rest
      | Inl parseError \<Rightarrow> jsonld_scan rest)"

definition extractJsonLdSchema :: "node \<Rightarrow> jsval" where
  "extractJsonLdSchema doc =
     (let scripts = querySelectorAll doc jsonld_selector
      in if length scripts = 0 then Null else jsonld_scan (map elem_text scripts))"

text \<open>
  \<open>extractSchema(dom)\<close>. The extraction of microdata and of RDFa, which catch their own
  exceptions and return an object or \<open>null\<close>, are parameters.
\<close>

record schema_fallbacks =
  extractMicrodataSchema :: "node \<Rightarrow> jsval"
  extractRdfaSchema :: "node \<Rightarrow> jsval"

definition extractSchema :: "schema_fallbacks \<Rightarrow> node option \<Rightarrow> exn + jsval" where
  "extractSchema fb dom0 =
     (case dom0 of
        None \<Rightarrow> Inr Null
      | Some doc \<Rightarrow>
          try_catch
            (let jsonldSchema = extractJsonLdSchema doc
             in if truthy jsonldSchema then Inr jsonldSchema
                else
                  let microdataSchema = extractMicrodataSchema fb doc
                  in if truthy microdataSchema then Inr microdataSchema
                     else
                       let rdfaSchema = extractRdfaSchema fb doc
                       in if truthy rdfaSchema then Inr rdfaSchema else Inr Null)
            (\<lambda>error. Inr Null))"

section \<open>The readability service\<close>

text \<open>\<open>generateExcerpt(text)\<close> with the default length 150, and the word count.\<close>

definition generateExcerpt :: "string \<Rightarrow> string" where
  "generateExcerpt txt =
     (if txt = [] then []
      else if length txt \<le> 150 then txt
      else
        let truncated = substr0 txt 150;
            sentenceBreak = lastIndexOf truncated ''.''
        in if sentenceBreak > 75 then substr0 truncated (sentenceBreak + 1)
           else
             let lastSpace = lastIndexOf truncated '' ''
             in if lastSpace > 0 then substr0 truncated lastSpace @ ''...''
                else truncated @ ''...'')"

definition countWords :: "string \<Rightarrow> nat" where
  "countWords txt =
     (if txt = [] then 0 else length (filter (\<lambda>word. length word > 0) (split_ws (trim txt))))"

text \<open>\<open>Math.ceil(wordCount / 200)\<close>.\<close>

definition calculateReadingTime :: "string \<Rightarrow> nat" where
  "calculateReadingTime txt = (countWords txt + 199) div 200"

record article =
  title :: string
  content :: "node option"
  articleText :: string
  excerpt :: string
  readingTime :: nat
  wordCount :: nat

text \<open>
  The steps of \<open>parseArticle\<close> that walk the document are parameters, and each may
  throw: what is proved of \<open>parseArticle\<close> holds whatever they do.
\<close>

record readability_steps =
  findMainContent :: "node \<Rightarrow> exn + node option"
  cleanContent :: "node option \<Rightarrow> exn + node option"
  extractText :: "node option \<Rightarrow> exn + string"
  extractArticleTitle :: "node \<Rightarrow> exn + string"

text \<open>\<open>dom.body\<close>: the first \<open>body\<close> or \<open>frameset\<close> child of the root element.\<close>

definition doc_body :: "node \<Rightarrow> node option" where
  "doc_body doc =
     (case doc of
        Element tg ats cs \<Rightarrow>
          find (\<lambda>n. case n of Element t _ _ \<Rightarrow> t = ''body'' \<or> t = ''frameset'' | TextNode _ \<Rightarrow> False) cs
      | TextNode _ \<Rightarrow> None)"

definition parseArticle_body :: "readability_steps \<Rightarrow> node \<Rightarrow> exn + article" where
  "parseArticle_body steps doc =
     bind_exn (findMainContent steps doc) (\<lambda>found.
       bind_exn (cleanContent steps
                  (case found of
                     Some a \<Rightarrow> Some a
                   | None \<Rightarrow> (case doc_body doc of Some b \<Rightarrow> Some b | None \<Rightarrow> Some doc)))
         (\<lambda>cleanedArticle.
           bind_exn (extractText steps cleanedArticle) (\<lambda>txt.
             bind_exn (extractArticleTitle steps doc) (\<lambda>ttl.
               Inr \<lparr>title = ttl, content = cleanedArticle, articleText = txt,
                    excerpt = generateExcerpt txt,
                    readingTime = calculateReadingTime txt,
                    wordCount = countWords txt\<rparr>))))"

definition degraded_article :: article where
  "degraded_article =
     \<lparr>title = ''Untitled Article'', content = None, articleText = [], excerpt = [],
      readingTime = 0, wordCount = 0\<rparr>"

definition parseArticle :: "readability_steps \<Rightarrow> node option \<Rightarrow> exn + article" where
  "parseArticle steps dom0 =
     (case dom0 of
        None \<Rightarrow> Inl (Error ''No DOM provided to parseArticle'')
      | Some doc \<Rightarrow> try_catch (parseArticle_body steps doc) (\<lambda>error. Inr degraded_article))"

text \<open>Steps for the examples: every one of them throws.\<close>

definition throwing_steps :: readability_steps where
  "throwing_steps =
     \<lparr>findMainContent = (\<lambda>d. Inl (TypeError ''dom.querySelector is not a function'')),
      cleanContent = (\<lambda>e. Inl (TypeError ''element.cloneNode is not a function'')),
      extractText = (\<lambda>e. Inr []),
      extractArticleTitle = (\<lambda>d. Inr ''Untitled Article'')\<rparr>"

text \<open>Steps that do not throw: no main content is found, and nothing is cleaned away.\<close>

definition plain_steps :: readability_steps where
  "plain_steps =
     \<lparr>findMainContent = (\<lambda>d. Inr None),
      cleanContent = (\<lambda>e. Inr e),
      extractText = (\<lambda>e. Inr (case e of None \<Rightarrow> [] | Some n \<Rightarrow> trim (collapse_ws (textContent n)))),
      extractArticleTitle = (\<lambda>d. Inr ''Untitled Article'')\<rparr>"

section \<open>The content extractor\<close>

text \<open>Reading the fields of a preview record, and \<open>{...previewData, k: v, ...}\<close>.\<close>

definition field :: "jsval \<Rightarrow> string \<Rightarrow> jsval" where
  "field r k = (case r of Obj ms \<Rightarrow> (case map_of ms k of Some v \<Rightarrow> v | None \<Rightarrow> Undefined) | _ \<Rightarrow> Undefined)"

definition obj_assign :: "jsval \<Rightarrow> (string \<times> jsval) list \<Rightarrow> jsval" where
  "obj_assign r kvs =
     (case r of
        Obj ms \<Rightarrow> Obj (foldl (\<lambda>acc (k, v). obj_set acc k v) ms kvs)
      | _ \<Rightarrow> Obj (foldl (\<lambda>acc (k, v). obj_set acc k v) [] kvs))"

definition str_or_null :: "string option \<Rightarrow> jsval" where
  "str_or_null s = (case s of None \<Rightarrow> Null | Some v \<Rightarrow> Str v)"

text \<open>The attribute \<open>content\<close> of the first element that matches, when it is truthy.\<close>

definition content_of :: "node \<Rightarrow> selector \<Rightarrow> string option" where
  "content_of doc sel =
     (case querySelector doc sel of
        None \<Rightarrow> None
      | Some e \<Rightarrow> if truthy_str (getAttribute e ''content'') then getAttribute e ''content'' else None)"

definition extractTitle :: "node \<Rightarrow> string" where
  "extractTitle doc =
     (case content_of doc (sel_tag_attr ''meta'' ''property'' ''og:title'') of
        Some c \<Rightarrow> c
      | None \<Rightarrow>
          (case querySelector doc (sel_tag ''title'') of
             None \<Rightarrow> ''Untitled Page''
           | Some t \<Rightarrow> if elem_text t \<noteq> [] then trim (elem_text t) else ''Untitled Page''))"

definition extractDescription :: "node \<Rightarrow> string" where
  "extractDescription doc =
     (case content_of doc (sel_tag_attr ''meta'' ''name'' ''description'') of
        Some c \<Rightarrow> c
      | None \<Rightarrow>
          (case content_of doc (sel_tag_attr ''meta'' ''property'' ''og:description'') of
             Some c \<Rightarrow> c
           | None \<Rightarrow>
               (case querySelector doc (sel_tag ''p'') of
                  None \<Rightarrow> ''No description available''
                | Some p \<Rightarrow>
                    if elem_text p \<noteq> [] then trim (elem_text p)
                    else ''No description available'')))"

text \<open>
  The scraping of the price, the rating and the availability from the document, which
  \<open>processProduct\<close> falls back to. \<open>first_text\<close> is the loop over the selectors: the
  first element with text whose cleaned text is truthy decides.
\<close>

fun first_text :: "node \<Rightarrow> (string \<Rightarrow> string option) \<Rightarrow> selector list \<Rightarrow> string option" where
  "first_text doc clean [] = None"
| "first_text doc clean (sel # rest) =
     (case querySelector doc sel of
        None \<Rightarrow> first_text doc clean rest
      | Some e \<Rightarrow>
          if elem_text e \<noteq> [] then
            (case clean (elem_text e) of
               Some r \<Rightarrow> Some r
             | None \<Rightarrow> first_text doc clean rest)
          else first_text doc clean rest)"

text \<open>\<open>text.trim().replace(/[^\d.,]/g, '')\<close>, when the result is not empty.\<close>

definition price_text :: "string \<Rightarrow> string option" where
  "price_text t =
     (let priceText = filter (\<lambda>c. is_digit c \<or> c = CHR ''.'' \<or> c = CHR '','') (trim t)
      in if priceText \<noteq> [] then Some priceText else None)"

text \<open>The first match of \<open>/(\d+(\.\d+)?)/\<close>.\<close>

definition rating_match :: "string \<Rightarrow> string option" where
  "rating_match t =
     (let s = dropWhile (\<lambda>c. \<not> is_digit c) t;
          whole = takeWhile is_digit s;
          after = dropWhile is_digit s
      in if whole = [] then None
         else if after \<noteq> [] \<and> hd after = CHR ''.'' \<and> takeWhile is_digit (tl after) \<noteq> []
         then Some (whole @ ''.'' @ takeWhile is_digit (tl after))
         else Some whole)"

definition extractPrice :: "node \<Rightarrow> jsval" where
  "extractPrice doc =
     (case content_of doc (sel_attr ''itemprop'' ''price'') of
        Some c \<Rightarrow> Str c
      | None \<Rightarrow>
          str_or_null (first_text doc price_text
            [sel_class ''price'', sel_class ''product-price'', sel_class ''offer-price'',
             sel_class ''regular-price'', sel_class ''current-price'']))"

definition extractRating :: "node \<Rightarrow> jsval" where
  "extractRating doc =
     (case content_of doc (sel_attr ''itemprop'' ''ratingValue'') of
        Some c \<Rightarrow> Str c
      | None \<Rightarrow>
          str_or_null (first_text doc rating_match
            [sel_class ''rating'', sel_class ''product-rating'', sel_class ''review-rating'',
             sel_class ''stars'']))"

definition extractAvailability :: "node \<Rightarrow> jsval" where
  "extractAvailability doc =
     (case content_of doc (sel_attr ''itemprop'' ''availability'') of
        Some c \<Rightarrow> Str c
      | None \<Rightarrow>
          str_or_null (first_text doc (\<lambda>t. Some (trim t))
            [sel_class ''availability'', sel_class ''stock-status'', sel_class ''in-stock'',
             sel_class ''out-of-stock'']))"

text \<open>
  \<open>processProduct(dom, previewData, schema)\<close>, with the call
  \<open>imageProcessor.extractProductImages(dom)\<close> as a parameter. The schema, when truthy, is
  an object or another value that has properties.
\<close>

definition processProduct_with ::
  "(node \<Rightarrow> exn + jsval) \<Rightarrow> node \<Rightarrow> jsval \<Rightarrow> jsval \<Rightarrow> exn + jsval" where
  "processProduct_with extractProductImages doc previewData schema =
     bind_exn
       (if truthy schema \<and> type_of_schema schema = Str ''Product'' then
          bind_exn (get_prop schema ''offers'') (\<lambda>offers.
            bind_exn (opt_chain offers ''price'') (\<lambda>price.
              bind_exn (get_prop schema ''aggregateRating'') (\<lambda>aggregateRating.
                bind_exn (opt_chain aggregateRating ''ratingValue'') (\<lambda>rating.
                  bind_exn (opt_chain offers ''availability'') (\<lambda>availability.
                    Inr (price, rating, availability))))))
        else Inr (extractPrice doc, extractRating doc, extractAvailability doc))
       (\<lambda>(price, rating, availability).
          bind_exn (extractProductImages doc) (\<lambda>images.
            Inr (obj_assign previewData
                   [(''price'', price), (''rating'', rating), (''availability'', availability),
                    (''images'', images),
                    (''mainImage'', (case images of Arr (first # _) \<Rightarrow> first | _ \<Rightarrow> Null)),
                    (''description'', Str (extractDescription doc))])))"

text \<open>
  The object \<open>imageProcessor\<close> defines \<open>extractImportantImages\<close>, \<open>extractGalleryImages\<close>,
  \<open>calculateImageScore\<close>, \<open>extractCaption\<close>, \<open>isValidImageUrl\<close> and \<open>resolveImageUrl\<close>. It has
  no property \<open>extractProductImages\<close>, so the call of it throws a \<open>TypeError\<close>.
\<close>

definition imageProcessor_methods :: "string list" where
  "imageProcessor_methods = [''extractImportantImages'', ''extractGalleryImages'',
     ''calculateImageScore'', ''extractCaption'', ''isValidImageUrl'', ''resolveImageUrl'']"

definition call_imageProcessor :: "string \<Rightarrow> (node \<Rightarrow> exn + jsval) \<Rightarrow> node \<Rightarrow> exn + jsval" where
  "call_imageProcessor name method doc =
     (if name \<in> set imageProcessor_methods then method doc
      else Inl (TypeError (''imageProcessor.'' @ name @ '' is not a function'')))"

definition processProduct :: "node \<Rightarrow> jsval \<Rightarrow> jsval \<Rightarrow> exn + jsval" where
  "processProduct doc previewData schema =
     processProduct_with
       (call_imageProcessor ''extractProductImages'' (\<lambda>d. Inr (Arr []))) doc previewData schema"

text \<open>
  What the extractor is given from outside: the \<open>DOMParser\<close> of the browser, the clock,
  the two schema extractions that are parameters, and the processing of the content
  types other than the product, each of which returns the record or throws.
\<close>

record pipeline_env =
  parseFromString :: "string \<Rightarrow> node"
  toISOString :: string
  fallbacks :: schema_fallbacks
  processArticle :: "node \<Rightarrow> jsval \<Rightarrow> exn + jsval"
  processGallery :: "node \<Rightarrow> jsval \<Rightarrow> exn + jsval"
  processVideo :: "node \<Rightarrow> jsval \<Rightarrow> jsval \<Rightarrow> exn + jsval"
  processSocial :: "node \<Rightarrow> jsval \<Rightarrow> jsval \<Rightarrow> exn + jsval"
  processDefault :: "node \<Rightarrow> jsval \<Rightarrow> exn + jsval"

definition parseHTML :: "pipeline_env \<Rightarrow> string \<Rightarrow> exn + node" where
  "parseHTML env htmlString =
     (if htmlString = [] then Inl (Error ''Invalid HTML string provided'')
      else Inr (parseFromString env htmlString))"

text \<open>
  The body of the \<open>try\<close> of \<open>extract(url, text, linkElement)\<close> up to the record that
  \<open>onExtracted\<close> is called with. \<open>fetched\<close> is the outcome of \<open>fetchService.fetchContent\<close>:
  the content, or the error the promise is rejected with. The link text \<open>text\<close> is
  falsy when empty.
\<close>

definition extract_body :: "pipeline_env \<Rightarrow> string \<Rightarrow> string \<Rightarrow> exn + string \<Rightarrow> exn + jsval" where
  "extract_body env url txt fetched =
     bind_exn fetched (\<lambda>content.
       if content = [] \<or> length (trim content) = 0
       then Inl (Error ''Empty content received from URL'')
       else
         bind_exn (parseHTML env content) (\<lambda>parsedDom.
           bind_exn (detect (Some parsedDom) url) (\<lambda>contentType.
             bind_exn (extractSchema (fallbacks env) (Some parsedDom)) (\<lambda>schema.
               let previewData = Obj
                     [(''url'', Str url), (''contentType'', Str contentType),
                      (''title'', Str (if txt \<noteq> [] then txt else extractTitle parsedDom)),
                      (''sourceUrl'', Str url), (''timestamp'', Str (toISOString env))]
               in if contentType = ''article'' then processArticle env parsedDom previewData
                  else if contentType = ''product'' then processProduct parsedDom previewData schema
                  else if contentType = ''gallery'' then processGallery env parsedDom previewData
                  else if contentType = ''video'' then processVideo env parsedDom previewData schema
                  else if contentType = ''social'' then processSocial env parsedDom previewData schema
                  else processDefault env parsedDom previewData))))"

text \<open>The message for the user, chosen in the \<open>catch\<close> by what the error message holds.\<close>

definition userMessage :: "string \<Rightarrow> string" where
  "userMessage m =
     (if includes_str m ''Extension context invalidated'' \<or> includes_str m ''Extension was reloaded''
      then ''The extension was updated or reloaded. Please refresh this page to continue using link previews.''
      else if includes_str m ''Mixed content blocked''
      then ''Cannot load HTTP content from HTTPS page due to browser security policies.''
      else if includes_str m ''CORS'' \<or> includes_str m ''Failed to fetch''
      then ''This website blocks external preview requests for security reasons.''
      else if includes_str m ''timeout'' \<or> includes_str m ''Request timeout''
      then ''Preview request timed out. The website may be slow to respond.''
      else if includes_str m ''Network error'' \<or> includes_str m ''net::''
      then ''Network connection issue. Please check your internet connection.''
      else if includes_str m ''404'' \<or> includes_str m ''Not Found''
      then ''The requested page could not be found.''
      else if includes_str m ''403'' \<or> includes_str m ''Forbidden''
      then ''Access to this content is restricted or forbidden.''
      else if includes_str m ''500'' \<or> includes_str m ''Server Error''
      then ''The server encountered an error. Please try again later.''
      else ''Unable to load preview for this link.'')"

definition errorTitle :: "string \<Rightarrow> string \<Rightarrow> string" where
  "errorTitle txt m =
     (if includes_str m ''Extension context invalidated'' \<or> includes_str m ''Extension was reloaded''
      then ''Extension Reloaded''
      else if includes_str m ''Mixed content blocked'' then ''Security Blocked''
      else if txt \<noteq> [] then txt else ''Preview unavailable'')"

definition error_preview :: "string \<Rightarrow> string \<Rightarrow> exn \<Rightarrow> jsval" where
  "error_preview url txt error =
     Obj [(''url'', Str url), (''contentType'', Str ''error''),
          (''title'', Str (errorTitle txt (message error))),
          (''description'', Str (userMessage (message error))),
          (''error'', Str (message error))]"

text \<open>
  The method \<open>extract\<close> of the content extractor: the records that \<open>onExtracted\<close> is
  called with, in order, and the exception that leaves \<open>extract\<close>, if any. \<open>onExtracted\<close> is the state setter of the parent
  component and returns normally.
\<close>

record extraction =
  delivered :: "jsval list"
  thrown :: "exn option"

definition extract_preview :: "pipeline_env \<Rightarrow> string \<Rightarrow> string \<Rightarrow> exn + string \<Rightarrow> extraction" where
  "extract_preview env url txt fetched =
     (case extract_body env url txt fetched of
        Inr previewData \<Rightarrow> \<lparr>delivered = [previewData], thrown = None\<rparr>
      | Inl error \<Rightarrow> \<lparr>delivered = [error_preview url txt error], thrown = None\<rparr>)"

text \<open>Examples: the schema fallbacks that find nothing, and blocks of JSON-LD.\<close>

definition no_fallbacks :: schema_fallbacks where
  "no_fallbacks = \<lparr>extractMicrodataSchema = (\<lambda>d. Null), extractRdfaSchema = (\<lambda>d. Null)\<rparr>"

definition escaped_backslash_block :: string where
  \<open>escaped_backslash_block =
     ''{"@type":"Product","name":"a'' @ [CHR 0x5C, CHR 0x5C] @ ''c'' @ [CHR 0x01] @ ''"}''\<close>

definition split_backslash_block :: string where
  \<open>split_backslash_block =
     ''{"@type":"Product","name":"x'' @ [CHR 0x5C, CHR 0x01, CHR 0x5C] @ ''"}''\<close>

definition control_char_block :: string where
  \<open>control_char_block =
     ''{"@type":"Pro'' @ [CHR 0x01] @ ''duct","offers":{"price":"19.99"}}''\<close>

definition product_block :: string where
  \<open>product_block = ''{"@type":"Product","offers":{"price":"19.99"}}''\<close>

definition jsonld_script :: "string \<Rightarrow> node" where
  "jsonld_script script_text =
     Element ''script'' [(''type'', ''application/ld+json'')] [TextNode script_text]"

definition product_page :: node where
  "product_page = page [jsonld_script product_block] []"

definition product_html :: string where
  \<open>product_html = ''<html><head><script type="application/ld+json">''
     @ product_block @ ''</script></head><body></body></html>''\<close>

text \<open>
  An environment for the examples: the parser gives the product page for its HTML and
  the empty page otherwise, and the processors that are parameters return the record
  as it is.
\<close>

definition example_env :: pipeline_env where
  "example_env =
     \<lparr>parseFromString = (\<lambda>html. if html = product_html then product_page else empty_page),
      toISOString = ''2025-01-01T00:00:00.000Z'',
      fallbacks = no_fallbacks,
      processArticle = (\<lambda>d p. Inr p),
      processGallery = (\<lambda>d p. Inr p),
      processVideo = (\<lambda>d p s. Inr p),
      processSocial = (\<lambda>d p s. Inr p),
      processDefault = (\<lambda>d p. Inr p)\<rparr>"

section \<open>Properties of the preview cache\<close>

lemma map_of_cache_set_same: "map_of (cache_set c url e) url = Some e"
  by (induction c url e rule: cache_set.induct) auto

lemma getCached_cache_set:
  "getCached (cache_set c url \<lparr>preview = r, timestamp = t0\<rparr>) t1 url =
     (if t1 - t0 > cacheTimeout
      then (None, cache_delete (cache_set c url \<lparr>preview = r, timestamp = t0\<rparr>) url)
      else (Some r, cache_set c url \<lparr>preview = r, timestamp = t0\<rparr>))"
  by (simp add: getCached_def cache_get_def map_of_cache_set_same)

text \<open>
  C9, as the code has it. After \<open>setCached(url, r)\<close> at the time \<open>t0\<close>, \<open>getCached(url)\<close> at
  the time \<open>t1\<close> returns \<open>r\<close> as long as \<open>t1 - t0\<close> is at most the time to live, the
  boundary included, and returns the miss once \<open>t1 - t0\<close> exceeds it, although the entry
  was still stored; whatever the cache held before and whether or not an old entry was
  evicted.
\<close>

theorem C9_cache_roundtrip:
  "fst (getCached (setCached c t0 url r) t1 url) =
     (if t1 - t0 > cacheTimeout then None else Some r)"
  by (simp add: setCached_def Let_def getCached_cache_set)

theorem C9_cache_roundtrip_witness:
  "fst (getCached (setCached [] 1000 ''https://a.example/'' (7::nat)) 1500 ''https://a.example/'')
     = Some 7
   \<and> fst (getCached (setCached [] 1000 ''https://a.example/'' (7::nat)) 400000
       ''https://a.example/'') = None"
  using C9_cache_roundtrip [of "[]" 1000 "''https://a.example/''" "7::nat" 1500]
    C9_cache_roundtrip [of "[]" 1000 "''https://a.example/''" "7::nat" 400000]
  by (simp add: cacheTimeout_def)

text \<open>
  C9 as stated fails on the boundary. The entry is set at time 0 and read when exactly
  the time to live, 300000 ms, has passed: \<open>now - timestamp < TTL\<close> is false, so the claim
  asks for a miss, and \<open>getCached\<close> returns the record.
\<close>

theorem C9_counterexample:
  "\<not> (300000 - 0 < cacheTimeout)
   \<and> fst (getCached (setCached [] 0 ''https://a.example/'' (7::nat)) 300000
       ''https://a.example/'') = Some 7"
  by (simp add: cacheTimeout_def setCached_def getCached_def cache_get_def)

section \<open>Properties of the text summarizer\<close>


lemma truncateToFit_nonempty:
  assumes "text \<noteq> []" "0 < maxChars"
  shows "truncateToFit text maxChars \<noteq> []"
proof -
  have t: "take (nat maxChars) text \<noteq> []" using assms by (cases "text") auto
  show ?thesis
    using assms t by (auto simp: truncateToFit_def Let_def substr0_def)
qed

lemma truncateToFit_fits:
  assumes "0 < maxChars"
    and "int (length text) \<le> maxChars \<or> 0 < bestBreak_of text maxChars"
  shows "int (length (truncateToFit text maxChars)) \<le> maxChars"
  using assms by (auto simp: truncateToFit_def Let_def substr0_def)

lemma splitIntoSentences_long:
  "s \<in> set (splitIntoSentences text) \<Longrightarrow> 10 < length s"
  by (auto simp: splitIntoSentences_def Let_def split: if_splits)

lemma set_insert_desc: "set (insert_desc x ys) = insert x (set ys)"
  by (induction ys) auto

lemma set_sort_by_score: "set (sort_by_score xs) = set xs"
  by (induction xs) (auto simp: set_insert_desc)

lemma length_insert_desc: "length (insert_desc x ys) = Suc (length ys)"
  by (induction ys) auto

lemma length_sort_by_score: "length (sort_by_score xs) = length xs"
  by (induction xs) (auto simp: length_insert_desc)

lemma length_scoredSentences: "length (scoredSentences score ss) = length ss"
  by (simp add: scoredSentences_def)

lemma sentence_scoredSentences:
  "x \<in> set (scoredSentences score ss) \<Longrightarrow> sentence x \<in> set ss"
  by (auto simp: scoredSentences_def dest: set_zip_leftD)

lemma length_topSentences:
  "length (topSentences score ss n) = min n (length ss)"
  by (simp add: topSentences_def length_sort_by_score length_scoredSentences)

lemma sentence_topSentences:
  "x \<in> set (topSentences score ss n) \<Longrightarrow> sentence x \<in> set ss"
  by (auto simp: topSentences_def set_sort_by_score dest!: in_set_takeD sentence_scoredSentences)

lemma join_nonempty: "xs \<noteq> [] \<Longrightarrow> hd xs \<noteq> [] \<Longrightarrow> join sep xs \<noteq> []"
  by (induction sep xs rule: join.induct) auto

lemma joined_summary_nonempty:
  assumes "0 < n" "splitIntoSentences text \<noteq> []"
  shows "joined_summary score (splitIntoSentences text) n \<noteq> []"
proof -
  let ?top = "topSentences score (splitIntoSentences text) n"
  have ne: "?top \<noteq> []"
    using assms length_topSentences [of score "splitIntoSentences text" n]
    by (cases "splitIntoSentences text") auto
  then have "hd ?top \<in> set ?top" by simp
  then have "sentence (hd ?top) \<in> set (splitIntoSentences text)"
    by (rule sentence_topSentences)
  then have "10 < length (sentence (hd ?top))" by (rule splitIntoSentences_long)
  then have "hd (map sentence ?top) \<noteq> []" using ne by (auto simp: hd_map)
  with ne show ?thesis
    unfolding joined_summary_def by (intro join_nonempty) auto
qed

lemma summarize_empty_iff:
  assumes "0 < maxSentences" "0 < maxChars"
  shows "summarize score text maxSentences maxChars = [] \<longleftrightarrow> text = []"
proof (cases "text = []")
  case True
  then show ?thesis by (simp add: summarize_def)
next
  case False
  let ?ss = "splitIntoSentences text"
  consider "?ss = []" | "?ss \<noteq> []" "length ?ss \<le> 2" | "2 < length ?ss" by fastforce
  then have "summarize score text maxSentences maxChars \<noteq> []"
  proof cases
    case 1
    then show ?thesis using False assms by (simp add: summarize_def truncateToFit_nonempty)
  next
    case 2
    then have "hd ?ss \<in> set ?ss" by simp
    then have "10 < length (hd ?ss)" by (rule splitIntoSentences_long)
    then show ?thesis using False 2 by (auto simp: summarize_def Let_def)
  next
    case 3
    then have ne: "?ss \<noteq> []" by auto
    have j: "joined_summary score ?ss maxSentences \<noteq> []"
      using assms(1) ne by (rule joined_summary_nonempty)
    show ?thesis using False 3 j assms(2)
      by (auto simp: summarize_def Let_def truncateToFit_nonempty)
  qed
  with False show ?thesis by simp
qed

text \<open>
  C2, as the code has it, for positive \<open>maxSentences\<close> and \<open>maxChars\<close> and every scoring.
  The summary is empty exactly when the text is. When the splitter finds one or two
  sentences, the summary is the first of them as it stands, whatever its length. In the
  other cases (no sentence found, or more than two) the summary has at most \<open>maxChars\<close>
  characters whenever the text handed to the last step fits, or \<open>truncateToFit\<close> cuts it
  at a sentence ending. Nothing is said of the cuts that append an ellipsis.
\<close>

theorem C2_summarize_amended:
  assumes ms: "0 < maxSentences" and mc: "0 < maxChars"
  shows "(summarize score text maxSentences maxChars = [] \<longleftrightarrow> text = []) \<and>
    (length (splitIntoSentences text) \<in> {1, 2} \<longrightarrow>
       summarize score text maxSentences maxChars = hd (splitIntoSentences text)) \<and>
    (splitIntoSentences text = [] \<and>
       (int (length text) \<le> maxChars \<or> 0 < bestBreak_of text maxChars) \<longrightarrow>
       int (length (summarize score text maxSentences maxChars)) \<le> maxChars) \<and>
    (2 < length (splitIntoSentences text) \<and>
       (int (length (joined_summary score (splitIntoSentences text) maxSentences)) \<le> maxChars
        \<or> 0 < bestBreak_of (joined_summary score (splitIntoSentences text) maxSentences) maxChars)
       \<longrightarrow> int (length (summarize score text maxSentences maxChars)) \<le> maxChars)"
proof (intro conjI impI)
  show "summarize score text maxSentences maxChars = [] \<longleftrightarrow> text = []"
    using ms mc by (rule summarize_empty_iff)
next
  assume "length (splitIntoSentences text) \<in> {1, 2}"
  moreover from this have "text \<noteq> []" by (auto simp: splitIntoSentences_def)
  ultimately show "summarize score text maxSentences maxChars = hd (splitIntoSentences text)"
    by (auto simp: summarize_def Let_def)
next
  assume a: "splitIntoSentences text = [] \<and>
       (int (length text) \<le> maxChars \<or> 0 < bestBreak_of text maxChars)"
  show "int (length (summarize score text maxSentences maxChars)) \<le> maxChars"
  proof (cases "text = []")
    case True
    then show ?thesis using mc by (simp add: summarize_def)
  next
    case False
    then show ?thesis using a mc by (simp add: summarize_def truncateToFit_fits)
  qed
next
  let ?j = "joined_summary score (splitIntoSentences text) maxSentences"
  assume a: "2 < length (splitIntoSentences text) \<and>
       (int (length ?j) \<le> maxChars \<or> 0 < bestBreak_of ?j maxChars)"
  then have "text \<noteq> []" by (auto simp: splitIntoSentences_def)
  then show "int (length (summarize score text maxSentences maxChars)) \<le> maxChars"
    using a mc truncateToFit_fits [of maxChars ?j]
    by (auto simp: summarize_def Let_def)
qed

theorem C2_summarize_amended_witness:
  "summarize (\<lambda>s i n. i) ''Abcdef. ghijklmn opq'' 3 10 \<noteq> []
   \<and> summarize (\<lambda>s i n. i) ''Aaaa bbbb cccc dddd eeee'' 3 20 = ''Aaaa bbbb cccc dddd eeee''
   \<and> int (length (summarize (\<lambda>s i n. i) ''Abcdef. ghijklmn opq'' 3 10)) \<le> 10
   \<and> int (length (summarize (\<lambda>s i n. i)
        ''One two three four. Five six seven eight. Nine ten eleven twelve.'' 2 30)) \<le> 30"
proof -
  let ?sc = "\<lambda>(s::string) (i::nat) (n::nat). i"
  let ?t1 = "''Abcdef. ghijklmn opq''"
  let ?t2 = "''Aaaa bbbb cccc dddd eeee''"
  let ?t3 = "''One two three four. Five six seven eight. Nine ten eleven twelve.''"
  have s1: "splitIntoSentences ?t1 = []" by code_simp
  have b1: "bestBreak_of ?t1 10 = 6" by code_simp
  have s2: "splitIntoSentences ?t2 = [''Aaaa bbbb cccc dddd eeee'']" by code_simp
  have s3: "splitIntoSentences ?t3 =
      [''One two three four.'', ''Five six seven eight.'', ''Nine ten eleven twelve.'']"
    by code_simp
  have j3: "joined_summary ?sc
      [''One two three four.'', ''Five six seven eight.'', ''Nine ten eleven twelve.''] 2
      = ''Five six seven eight. Nine ten eleven twelve.''"
    by code_simp
  have b3: "bestBreak_of ''Five six seven eight. Nine ten eleven twelve.'' 30 = 20"
    by code_simp
  show ?thesis
    using C2_summarize_amended [of 3 10 ?sc ?t1] C2_summarize_amended [of 3 20 ?sc ?t2]
      C2_summarize_amended [of 2 30 ?sc ?t3]
    by (simp add: s1 b1 s2 s3 j3 b3)
qed

text \<open>
  C2 as stated fails. The text below is one sentence of 24 characters; with
  \<open>maxChars = 20\<close> the summary is that sentence, longer than \<open>maxChars\<close>.
\<close>

theorem C2_counterexample:
  "\<not> int (length (summarize (\<lambda>s i n. i) ''Aaaa bbbb cccc dddd eeee'' 3 20)) \<le> 20"
  by code_simp

section \<open>Properties of the content type detector\<close>

lemma startsWith_iff: "startsWith s p \<longleftrightarrow> (\<exists>q. s = p @ q)"
  unfolding startsWith_def
  by (metis append_eq_conv_conj append_take_drop_id)

lemma includes_str_iff: "includes_str s sub \<longleftrightarrow> (\<exists>p q. s = p @ sub @ q)"
proof (induction s)
  case Nil
  then show ?case by auto
next
  case (Cons c cs)
  show ?case
  proof
    assume "includes_str (c # cs) sub"
    then consider "startsWith (c # cs) sub" | "includes_str cs sub" by auto
    then show "\<exists>p q. c # cs = p @ sub @ q"
    proof cases
      case 1
      then obtain q where "c # cs = sub @ q" by (auto simp: startsWith_iff)
      then have "c # cs = [] @ sub @ q" by simp
      then show ?thesis by blast
    next
      case 2
      then obtain p q where "cs = p @ sub @ q" using Cons.IH by auto
      then have "c # cs = (c # p) @ sub @ q" by simp
      then show ?thesis by blast
    qed
  next
    assume "\<exists>p q. c # cs = p @ sub @ q"
    then obtain p q where pq: "c # cs = p @ sub @ q" by auto
    show "includes_str (c # cs) sub"
    proof (cases p)
      case Nil
      with pq have "startsWith (c # cs) sub" by (auto simp: startsWith_iff)
      then show ?thesis by simp
    next
      case (Cons a p')
      with pq have "cs = p' @ sub @ q" by simp
      then have "includes_str cs sub" using Cons.IH by blast
      then show ?thesis by simp
    qed
  qed
qed

lemma list_ex_includes:
  "list_ex (\<lambda>site. includes_str (toLowerCase url) site) names = url_contains_any url names"
  by (simp add: list_ex_iff url_contains_any_def includes_str_iff)

lemma isVideoSite_iff: "isVideoSite url = url_contains_any url videoSites"
  by (simp add: isVideoSite_def list_ex_includes)

lemma isSocialSite_iff: "isSocialSite url = url_contains_any url socialSites"
  by (simp add: isSocialSite_def list_ex_includes)

lemma isEcommerceSite_iff:
  "isEcommerceSite url =
     url_contains_any url (ecommerceSites @ [''/product/'', ''/products/'', ''/shop/'', ''/item/''])"
proof -
  have "isEcommerceSite url =
      list_ex (\<lambda>site. includes_str (toLowerCase url) site)
        (ecommerceSites @ [''/product/'', ''/products/'', ''/shop/'', ''/item/''])"
    by (simp add: isEcommerceSite_def Let_def list_ex_iff del: includes_str.simps) blast
  then show ?thesis by (simp only: list_ex_includes)
qed

lemma detect_dom_types: "detect_dom d \<in> set contentTypes"
  by (simp add: detect_dom_def contentTypes_def)

lemma detect_Some:
  "url \<noteq> [] \<Longrightarrow> detect (Some d) url =
     Inr (if isVideoSite url then ''video'' else if isSocialSite url then ''social''
          else if isEcommerceSite url then ''product'' else detect_dom d)"
  by (simp add: detect_def try_catch_def)

text \<open>
  C3. For every document, a missing one included, and every URL string, \<open>detect\<close> returns
  a value and throws nothing; the value is one of \<open>'article'\<close>, \<open>'product'\<close>, \<open>'video'\<close>,
  \<open>'social'\<close>, \<open>'gallery'\<close>, \<open>'default'\<close>; it is \<open>'default'\<close> when the document is missing
  or the URL is empty, and when none of the checks of the URL and of the document holds.
\<close>

theorem C3_detect_total:
  "(\<exists>t. detect doc url = Inr t \<and> t \<in> set contentTypes)
   \<and> (doc = None \<or> url = [] \<longrightarrow> detect doc url = Inr ''default'')
   \<and> (\<forall>d. doc = Some d \<and> \<not> isVideoSite url \<and> \<not> isSocialSite url \<and> \<not> isEcommerceSite url
         \<and> \<not> hasArticleSchema d \<and> \<not> hasArticleStructure d \<and> \<not> hasProductSchema d
         \<and> \<not> hasProductStructure d \<and> \<not> hasGalleryStructure d \<and> \<not> hasVideoStructure d
         \<and> \<not> hasSubstantialText d
         \<longrightarrow> detect doc url = Inr ''default'')"
proof (intro conjI allI impI)
  show "\<exists>t. detect doc url = Inr t \<and> t \<in> set contentTypes"
  proof (cases doc)
    case None
    then show ?thesis by (simp add: detect_def contentTypes_def)
  next
    case (Some d)
    show ?thesis
    proof (cases "url = []")
      case True
      then show ?thesis using Some by (simp add: detect_def contentTypes_def)
    next
      case False
      then show ?thesis using Some detect_dom_types [of d]
        by (simp add: detect_Some contentTypes_def)
    qed
  qed
next
  assume "doc = None \<or> url = []"
  then show "detect doc url = Inr ''default''"
    by (auto simp: detect_def split: option.splits)
next
  fix d
  assume a: "doc = Some d \<and> \<not> isVideoSite url \<and> \<not> isSocialSite url \<and> \<not> isEcommerceSite url
         \<and> \<not> hasArticleSchema d \<and> \<not> hasArticleStructure d \<and> \<not> hasProductSchema d
         \<and> \<not> hasProductStructure d \<and> \<not> hasGalleryStructure d \<and> \<not> hasVideoStructure d
         \<and> \<not> hasSubstantialText d"
  then show "detect doc url = Inr ''default''"
    by (cases "url = []") (simp_all add: detect_def try_catch_def detect_dom_def)
qed

theorem C3_detect_total_witness:
  "detect None ''https://example.org/a'' = Inr ''default''
   \<and> detect (Some empty_page) [] = Inr ''default''
   \<and> detect (Some empty_page) ''https://example.org/a'' = Inr ''default''"
proof -
  have u: "\<not> isVideoSite ''https://example.org/a'' \<and> \<not> isSocialSite ''https://example.org/a''
      \<and> \<not> isEcommerceSite ''https://example.org/a''"
    by code_simp
  have d: "\<not> hasArticleSchema empty_page \<and> \<not> hasArticleStructure empty_page
      \<and> \<not> hasProductSchema empty_page \<and> \<not> hasProductStructure empty_page
      \<and> \<not> hasGalleryStructure empty_page \<and> \<not> hasVideoStructure empty_page
      \<and> \<not> hasSubstantialText empty_page"
    by code_simp
  show ?thesis
    using C3_detect_total [of None "''https://example.org/a''"]
      C3_detect_total [of "Some empty_page" "[]"]
      C3_detect_total [of "Some empty_page" "''https://example.org/a''"] u d
    by simp
qed

text \<open>
  C4, as the code has it. The first three steps look at the whole URL, in lower case,
  and not at its host: the result is \<open>'video'\<close> when a name of the video list occurs
  anywhere in the URL, otherwise \<open>'social'\<close> when a name of the social list occurs,
  otherwise \<open>'product'\<close> when a name of the shop list or one of the four path markers
  occurs; and when none occurs, the result is that of the checks of the document, which
  do not read the URL.
\<close>

theorem C4_url_steps:
  assumes "url \<noteq> []"
  shows "(url_contains_any url videoSites \<longrightarrow> detect (Some d) url = Inr ''video'')
   \<and> (\<not> url_contains_any url videoSites \<and> url_contains_any url socialSites
        \<longrightarrow> detect (Some d) url = Inr ''social'')
   \<and> (\<not> url_contains_any url videoSites \<and> \<not> url_contains_any url socialSites
        \<and> url_contains_any url
             (ecommerceSites @ [''/product/'', ''/products/'', ''/shop/'', ''/item/''])
        \<longrightarrow> detect (Some d) url = Inr ''product'')
   \<and> (\<not> url_contains_any url videoSites \<and> \<not> url_contains_any url socialSites
        \<and> \<not> url_contains_any url
             (ecommerceSites @ [''/product/'', ''/products/'', ''/shop/'', ''/item/''])
        \<longrightarrow> detect (Some d) url = Inr (detect_dom d))"
  using assms
  by (simp add: detect_Some isVideoSite_iff isSocialSite_iff isEcommerceSite_iff)

theorem C4_url_steps_witness:
  "detect (Some empty_page) ''https://www.youtube.com/watch?v=abc'' = Inr ''video''
   \<and> detect (Some empty_page) ''https://example.org/a?u=x.com'' = Inr ''social''
   \<and> detect (Some empty_page) ''https://example.org/Shop/1'' = Inr ''product''
   \<and> detect (Some empty_page) ''https://example.org/a'' = Inr (detect_dom empty_page)"
proof -
  let ?m = "ecommerceSites @ [''/product/'', ''/products/'', ''/shop/'', ''/item/'']"
  have 1: "isVideoSite ''https://www.youtube.com/watch?v=abc''" by code_simp
  have 2: "\<not> isVideoSite ''https://example.org/a?u=x.com''
      \<and> isSocialSite ''https://example.org/a?u=x.com''" by code_simp
  have 3: "\<not> isVideoSite ''https://example.org/Shop/1''
      \<and> \<not> isSocialSite ''https://example.org/Shop/1''
      \<and> isEcommerceSite ''https://example.org/Shop/1''" by code_simp
  have 4: "\<not> isVideoSite ''https://example.org/a'' \<and> \<not> isSocialSite ''https://example.org/a''
      \<and> \<not> isEcommerceSite ''https://example.org/a''" by code_simp
  show ?thesis
    using C4_url_steps [of "''https://www.youtube.com/watch?v=abc''" empty_page]
      C4_url_steps [of "''https://example.org/a?u=x.com''" empty_page]
      C4_url_steps [of "''https://example.org/Shop/1''" empty_page]
      C4_url_steps [of "''https://example.org/a''" empty_page]
      1 2 3 4
    by (simp add: isVideoSite_iff isSocialSite_iff isEcommerceSite_iff)
qed

text \<open>
  C4 as stated fails. The host of the URL below is \<open>twitter.com\<close>: it holds no name of
  the video list and it holds a name of the social list, so the claim asks for
  \<open>'social'\<close>. The path holds \<open>video\<close>, and \<open>detect\<close> returns \<open>'video'\<close>.
\<close>

theorem C4_counterexample:
  "spec_url_host ''https://twitter.com/i/video/1'' = ''twitter.com''
   \<and> \<not> list_ex (includes_str (spec_url_host ''https://twitter.com/i/video/1'')) videoSites
   \<and> list_ex (includes_str (spec_url_host ''https://twitter.com/i/video/1'')) socialSites
   \<and> detect (Some empty_page) ''https://twitter.com/i/video/1'' = Inr ''video''"
  by code_simp

section \<open>Properties of the image processor\<close>

lemma priority_elements_inv:
  assumes "priority_elements api m mx b els st = (st', ret)"
    and "phase1_inv api b st" and "int (length (fst st)) < mx"
  shows "phase1_inv api b st' \<and> set (snd st) \<subseteq> set (snd st')
    \<and> (if ret then int (length (fst st')) = mx else int (length (fst st')) < mx)"
  using assms
proof (induction api m mx b els st arbitrary: st' ret rule: priority_elements.induct)
  case (1 api is_meta maxImages baseUrl st)
  then show ?case by simp
next
  case (2 api is_meta maxImages baseUrl element rest images seenUrls)
  show ?case
  proof (cases "candidate_url api (element_src is_meta element) baseUrl")
    case None
    then show ?thesis using 2 by simp
  next
    case (Some r)
    show ?thesis
    proof (cases "r \<in> set seenUrls")
      case True
      then show ?thesis using 2 Some by simp
    next
      case False
      let ?images' = "images @ [priority_image is_meta element r]"
      let ?seen' = "r # seenUrls"
      have inv': "phase1_inv api baseUrl (?images', ?seen')"
        using "2.prems"(2) False Some
        by (auto simp: phase1_inv_def priority_image_def src_ok_def)
      show ?thesis
      proof (cases "int (length ?images') \<ge> maxImages")
        case True
        then have "st' = (?images', ?seen') \<and> ret"
          using "2.prems"(1) Some False by (simp add: Let_def)
        then show ?thesis using inv' True "2.prems"(3) by auto
      next
        case ge: False
        then have eq: "priority_elements api is_meta maxImages baseUrl rest (?images', ?seen') = (st', ret)"
          using "2.prems"(1) Some False by (simp add: Let_def)
        have "phase1_inv api baseUrl st' \<and> set (snd (?images', ?seen')) \<subseteq> set (snd st')
          \<and> (if ret then int (length (fst st')) = maxImages else int (length (fst st')) < maxImages)"
          using "2.IH"(3) [OF Some False refl refl ge eq inv'] ge by simp
        then show ?thesis by auto
      qed
    qed
  qed
qed

lemma priority_loop_inv:
  assumes "priority_loop api doc mx b sels st = (st', ret)"
    and "phase1_inv api b st" and "int (length (fst st)) < mx"
  shows "phase1_inv api b st'
    \<and> (if ret then int (length (fst st')) = mx else int (length (fst st')) < mx)"
  using assms
proof (induction sels arbitrary: st)
  case Nil
  then show ?case by simp
next
  case (Cons a sels)
  obtain name sel where a: "a = (name, sel)" by (cases a)
  obtain st1 r1 where pe: "priority_elements api (startsWith name ''meta'' \<or> startsWith name ''link'')
             mx b (querySelectorAll doc sel) st = (st1, r1)" by fastforce
  have inv1: "phase1_inv api b st1 \<and> set (snd st) \<subseteq> set (snd st1)
    \<and> (if r1 then int (length (fst st1)) = mx else int (length (fst st1)) < mx)"
    using priority_elements_inv [OF pe Cons.prems(2,3)] .
  show ?case
  proof (cases r1)
    case True
    then have "st' = st1 \<and> ret" using Cons.prems(1) a pe by simp
    then show ?thesis using inv1 True by simp
  next
    case False
    then have "priority_loop api doc mx b sels st1 = (st', ret)"
      using Cons.prems(1) a pe by simp
    from Cons.IH [OF this] inv1 False show ?thesis by (simp split: if_splits)
  qed
qed

lemma set_insert_by_score: "set (insert_by_score x ys) = insert x (set ys)"
  by (induction ys) auto

lemma set_sort_scored: "set (sort_scored xs) = set xs"
  by (induction xs) (auto simp: set_insert_by_score)

lemma scoredImages_sound:
  "x \<in> set (scoredImages api b seen els) \<Longrightarrow>
     si_element x \<in> set els \<and> 0 < calculateImageScore (si_element x)
     \<and> candidate_url api (element_src False (si_element x)) b = Some (si_src x)
     \<and> si_src x \<notin> set seen"
  by (induction api b seen els rule: scoredImages.induct)
     (auto simp: Let_def split: option.splits if_splits)

lemma add_scored_length:
  "int (length (fst st)) \<le> mx \<Longrightarrow> int (length (fst (add_scored mx xs st))) \<le> mx"
  by (induction mx xs st rule: add_scored.induct) auto

lemma add_scored_shape:
  "\<exists>extra. fst (add_scored mx xs st) = fst st @ extra
     \<and> (\<forall>i \<in> set extra. \<not> priority i \<and> (\<exists>x \<in> set xs. src i = si_src x))"
proof (induction mx xs st rule: add_scored.induct)
  case (1 maxImages st)
  then show ?case by simp
next
  case (2 maxImages x xs images seenUrls)
  show ?case
  proof (cases "int (length images) \<ge> maxImages")
    case True
    then show ?thesis by simp
  next
    case False
    let ?new = "\<lparr>src = si_src x, alt = attr_or (si_element x) ''alt'' '''',
                         width = attr_or_null (si_element x) ''width'',
                         height = attr_or_null (si_element x) ''height'',
                         priority = False\<rparr>"
    from 2 False obtain extra where e: "fst (add_scored maxImages xs (images @ [?new], si_src x # seenUrls))
        = (images @ [?new]) @ extra"
      "\<forall>i \<in> set extra. \<not> priority i \<and> (\<exists>x \<in> set xs. src i = si_src x)"
      by auto
    have "fst (add_scored maxImages (x # xs) (images, seenUrls)) = images @ (?new # extra)"
      using False e(1) by simp
    moreover have "\<forall>i \<in> set (?new # extra). \<not> priority i \<and> (\<exists>y \<in> set (x # xs). src i = si_src y)"
      using e(2) by auto
    ultimately show ?thesis by (metis fst_conv)
  qed
qed

text \<open>
  The result of \<open>extractImportantImages\<close>: the images of the first phase, then those of
  the second.
\<close>

lemma extract_shape:
  assumes "1 \<le> mx"
  shows "\<exists>images extra.
     extractImportantImages api (Some doc) mx b = images @ extra
     \<and> int (length (images @ extra)) \<le> mx
     \<and> distinct (map src images)
     \<and> (\<forall>i \<in> set images. priority i \<and> src_ok api b (src i))
     \<and> (\<forall>i \<in> set extra. \<not> priority i \<and> src i \<notin> src ` set images
          \<and> (\<exists>img \<in> set (querySelectorAll doc remaining_selector).
                0 < calculateImageScore img
                \<and> candidate_url api (element_src False img) b = Some (src i)))"
proof -
  obtain images seen ret where pl:
    "priority_loop api doc mx b prioritySelectors ([], []) = ((images, seen), ret)"
    by (metis surj_pair)
  have inv0: "phase1_inv api b ([], [])" by (simp add: phase1_inv_def)
  have len0: "int (length (fst (([], []) :: img_state))) < mx" using assms by simp
  have inv: "phase1_inv api b (images, seen)
      \<and> (if ret then int (length images) = mx else int (length images) < mx)"
    using priority_loop_inv [OF pl inv0 len0] by (simp split: if_splits)
  then have d: "distinct (map src images)"
    and p: "\<forall>i \<in> set images. priority i \<and> src_ok api b (src i)"
    and sub: "src ` set images \<subseteq> set seen"
    by (auto simp: phase1_inv_def)
  show ?thesis
  proof (cases ret)
    case True
    then have "extractImportantImages api (Some doc) mx b = images @ []"
      using pl by (simp add: extractImportantImages_def)
    moreover have "int (length (images @ [])) \<le> mx" using inv True by simp
    ultimately show ?thesis using d p by (metis empty_iff list.set(1))
  next
    case False
    let ?sc = "sort_scored (scoredImages api b seen (querySelectorAll doc remaining_selector))"
    from False inv have lt: "int (length images) < mx" by simp
    then have r: "extractImportantImages api (Some doc) mx b = fst (add_scored mx ?sc (images, seen))"
      using pl False by (simp add: extractImportantImages_def)
    obtain extra where e: "fst (add_scored mx ?sc (images, seen)) = images @ extra"
      "\<forall>i \<in> set extra. \<not> priority i \<and> (\<exists>x \<in> set ?sc. src i = si_src x)"
      using add_scored_shape [of mx ?sc "(images, seen)"] by auto
    have len: "int (length (images @ extra)) \<le> mx"
      using add_scored_length [of "(images, seen)" mx ?sc] lt e(1) by simp
    have ex: "\<forall>i \<in> set extra. \<not> priority i \<and> src i \<notin> src ` set images
          \<and> (\<exists>img \<in> set (querySelectorAll doc remaining_selector).
                0 < calculateImageScore img
                \<and> candidate_url api (element_src False img) b = Some (src i))"
    proof
      fix i assume "i \<in> set extra"
      with e(2) obtain x where x: "\<not> priority i" "x \<in> set ?sc" "src i = si_src x" by auto
      from x(2) have "x \<in> set (scoredImages api b seen (querySelectorAll doc remaining_selector))"
        by (simp add: set_sort_scored)
      from scoredImages_sound [OF this] x(1,3) sub
      show "\<not> priority i \<and> src i \<notin> src ` set images
          \<and> (\<exists>img \<in> set (querySelectorAll doc remaining_selector).
                0 < calculateImageScore img
                \<and> candidate_url api (element_src False img) b = Some (src i))"
        by auto
    qed
    show ?thesis using r e(1) len d p ex by metis
  qed
qed



lemma priority_elements_priority:
  assumes "priority_elements api m mx b els st = (st', ret)"
    and "\<forall>i \<in> set (fst st). priority i"
  shows "\<forall>i \<in> set (fst st'). priority i"
  using assms
proof (induction api m mx b els st arbitrary: st' ret rule: priority_elements.induct)
  case (1 api is_meta maxImages baseUrl st)
  then show ?case by simp
next
  case (2 api is_meta maxImages baseUrl element rest images seenUrls)
  show ?case
  proof (cases "candidate_url api (element_src is_meta element) baseUrl")
    case None
    then show ?thesis using 2 by simp
  next
    case (Some r)
    show ?thesis
    proof (cases "r \<in> set seenUrls")
      case True
      then show ?thesis using 2 Some by simp
    next
      case False
      let ?images' = "images @ [priority_image is_meta element r]"
      have all': "\<forall>i \<in> set (fst (?images', r # seenUrls)). priority i"
        using "2.prems"(2) by (auto simp: priority_image_def)
      show ?thesis
      proof (cases "int (length ?images') \<ge> maxImages")
        case True
        then have "st' = (?images', r # seenUrls)"
          using "2.prems"(1) Some False by (simp add: Let_def)
        then show ?thesis using all' by simp
      next
        case ge: False
        then have eq: "priority_elements api is_meta maxImages baseUrl rest (?images', r # seenUrls)
            = (st', ret)"
          using "2.prems"(1) Some False by (simp add: Let_def)
        show ?thesis using "2.IH"(3) [OF Some False refl refl ge eq all'] .
      qed
    qed
  qed
qed

lemma priority_loop_priority:
  assumes "priority_loop api doc mx b sels st = (st', ret)"
    and "\<forall>i \<in> set (fst st). priority i"
  shows "\<forall>i \<in> set (fst st'). priority i"
  using assms
proof (induction sels arbitrary: st)
  case Nil
  then show ?case by simp
next
  case (Cons a sels)
  obtain name sel where a: "a = (name, sel)" by (cases a)
  obtain st1 r1 where pe: "priority_elements api (startsWith name ''meta'' \<or> startsWith name ''link'')
             mx b (querySelectorAll doc sel) st = (st1, r1)" by fastforce
  have p1: "\<forall>i \<in> set (fst st1). priority i"
    using priority_elements_priority [OF pe Cons.prems(2)] .
  show ?case
  proof (cases r1)
    case True
    then have "st' = st1" using Cons.prems(1) a pe by simp
    then show ?thesis using p1 by simp
  next
    case False
    then have "priority_loop api doc mx b sels st1 = (st', ret)"
      using Cons.prems(1) a pe by simp
    from Cons.IH [OF this p1] show ?thesis .
  qed
qed

lemma priority_loop_no_match:
  "\<forall>ns \<in> set sels. querySelectorAll doc (snd ns) = [] \<Longrightarrow>
     priority_loop api doc mx b sels st = (st, False)"
  by (induction sels) auto

lemma scoredImages_none:
  "\<forall>img \<in> set els. calculateImageScore img \<le> 0 \<Longrightarrow> scoredImages api b seen els = []"
  by (induction api b seen els rule: scoredImages.induct)
     (auto simp: Let_def split: option.splits)




text \<open>
  Two more ways in which the code leaves the statement of C5. A data URI is accepted
  on its length before the test for SVG is reached, so a long SVG data URI is valid;
  and the second phase looks sources up in \<open>seenUrls\<close> before any of its own is added,
  so the same source can be returned twice.
\<close>

lemma svg_data_uri_is_valid:
  "isValidImageUrl api (''data:image/svg+xml;utf8,'' @ replicate 100 (CHR ''a''))"
  by (simp add: isValidImageUrl_def startsWith_def)

lemma second_phase_repeats_src:
  "map src (extractImportantImages plain_url_api (Some twins_page) 5 None) = [''/a.jpg'', ''/a.jpg'']"
  by code_simp

text \<open>
  C10. An image without priority in the result comes from an \<open><img>\<close> of the document
  whose score is positive. When no priority selector matches and every \<open><img>\<close> with a
  source scores zero or less, the result is empty, fewer than any positive quota,
  whether or not the sources are valid.
\<close>

theorem C10_scored_phase:
  "(\<forall>i \<in> set (extractImportantImages api (Some d) maxImages baseUrl).
      \<not> priority i \<longrightarrow>
        (\<exists>img \<in> set (querySelectorAll d remaining_selector).
           0 < calculateImageScore img
           \<and> candidate_url api (element_src False img) baseUrl = Some (src i)))
   \<and> ((\<forall>ns \<in> set prioritySelectors. querySelectorAll d (snd ns) = [])
        \<and> (\<forall>img \<in> set (querySelectorAll d remaining_selector). calculateImageScore img \<le> 0)
        \<longrightarrow> extractImportantImages api (Some d) maxImages baseUrl = []
            \<and> (0 < maxImages \<longrightarrow>
                 int (length (extractImportantImages api (Some d) maxImages baseUrl)) < maxImages))"
proof (intro conjI ballI impI)
  fix i
  assume i: "i \<in> set (extractImportantImages api (Some d) maxImages baseUrl)"
    and np: "\<not> priority i"
  show "\<exists>img \<in> set (querySelectorAll d remaining_selector).
           0 < calculateImageScore img
           \<and> candidate_url api (element_src False img) baseUrl = Some (src i)"
  proof (cases "1 \<le> maxImages")
    case True
    from extract_shape [OF True, of api d baseUrl] i np show ?thesis by auto
  next
    case False
    obtain images seen ret where pl:
      "priority_loop api d maxImages baseUrl prioritySelectors ([], []) = ((images, seen), ret)"
      by (metis surj_pair)
    have "\<forall>i \<in> set (fst (images, seen)). priority i"
      by (rule priority_loop_priority [OF pl]) simp
    moreover have "extractImportantImages api (Some d) maxImages baseUrl = images"
      using pl False by (cases ret) (simp_all add: extractImportantImages_def)
    ultimately show ?thesis using i np by simp
  qed
next
  assume a: "(\<forall>ns \<in> set prioritySelectors. querySelectorAll d (snd ns) = [])
        \<and> (\<forall>img \<in> set (querySelectorAll d remaining_selector). calculateImageScore img \<le> 0)"
  then have pl: "priority_loop api d maxImages baseUrl prioritySelectors ([], []) = (([], []), False)"
    by (simp add: priority_loop_no_match)
  from a have sc: "scoredImages api baseUrl [] (querySelectorAll d remaining_selector) = []"
    by (simp add: scoredImages_none)
  show e: "extractImportantImages api (Some d) maxImages baseUrl = []"
    by (simp add: extractImportantImages_def pl sc)
  assume "0 < maxImages"
  then show "int (length (extractImportantImages api (Some d) maxImages baseUrl)) < maxImages"
    by (simp add: e)
qed

theorem C10_scored_phase_witness:
  "isValidImageUrl plain_url_api ''/icon.png'' \<and> isValidImageUrl plain_url_api ''/b.jpg''
   \<and> extractImportantImages plain_url_api (Some icons_page) 5 None = []
   \<and> int (length (extractImportantImages plain_url_api (Some icons_page) 5 None)) < 5"
proof -
  have v: "isValidImageUrl plain_url_api ''/icon.png'' \<and> isValidImageUrl plain_url_api ''/b.jpg''"
    by code_simp
  have p: "\<forall>ns \<in> set prioritySelectors. querySelectorAll icons_page (snd ns) = []"
    by code_simp
  have z: "\<forall>img \<in> set (querySelectorAll icons_page remaining_selector). calculateImageScore img \<le> 0"
    by code_simp
  show ?thesis
    using C10_scored_phase [of plain_url_api icons_page 5 None] v p z by simp
qed

section \<open>Properties of the schema detector\<close>

lemma collapse_backslashes_id:
  "\<not> has_double_backslash s \<Longrightarrow> collapse_backslashes s = s"
  by (induction s rule: collapse_backslashes.induct) auto

lemma jsonld_scan_skip:
  assumes "jsonld_block bad = Inr None \<or> (\<exists>e. jsonld_block bad = Inl e)"
  shows "jsonld_scan (before @ bad # after) = jsonld_scan (before @ after)"
proof (induction before)
  case Nil
  from assms show ?case by auto
next
  case (Cons t before)
  then show ?case by (simp split: sum.splits option.splits)
qed

lemma extractSchema_returns: "\<exists>s. extractSchema fb dom0 = Inr s"
  by (cases dom0) (auto simp: extractSchema_def try_catch_def Let_def)

lemma jsonld_block_eq:
  "jsonld_block t =
     (if trim t = [] then Inr None
      else bind_exn (JSON_parse (sanitizeJsonLdContent (trim t))) schema_from_json)"
  by (simp add: jsonld_block_def schema_from_json_def Let_def bind_exn_def
      split: sum.splits jsval.splits)

lemma JSON_parse_empty: "\<exists>e. JSON_parse [] = Inl e"
  by (simp add: JSON_parse_def)

lemma normalizeSchema_Obj_truthy: "truthy (normalizeSchema (Obj ms))"
  by (simp add: normalizeSchema_def split: option.splits jsval.splits list.splits)

lemma schema_from_json_truthy:
  assumes "schema_from_json v = Inr (Some s)"
  shows "truthy s"
proof (cases v)
  case (Obj ms)
  with assms show ?thesis
    using normalizeSchema_Obj_truthy [of ms]
    by (auto simp: schema_from_json_def bind_exn_def Let_def split: if_splits)
qed (use assms in \<open>auto simp: schema_from_json_def bind_exn_def Let_def split: if_splits\<close>)

lemma jsonld_scan_first:
  assumes "\<forall>b \<in> set earlier. jsonld_block b = Inr None \<or> (\<exists>e. jsonld_block b = Inl e)"
    and "jsonld_block t = Inr (Some s)"
  shows "jsonld_scan (earlier @ t # later) = s"
  using assms by (induction earlier) auto

lemma unparseable_block:
  assumes "\<exists>e. JSON_parse (sanitizeJsonLdContent (trim b)) = Inl e"
  shows "jsonld_block b = Inr None \<or> (\<exists>e. jsonld_block b = Inl e)"
  using assms by (auto simp: jsonld_block_eq bind_exn_def)

lemma extractSchema_jsonld:
  assumes "map elem_text (querySelectorAll doc jsonld_selector) = earlier @ t # later"
    and "jsonld_scan (earlier @ t # later) = s" and "truthy s"
  shows "extractSchema fb (Some doc) = Inr s"
proof -
  from assms(1) have "querySelectorAll doc jsonld_selector \<noteq> []" by auto
  with assms show ?thesis
    by (simp add: extractSchema_def extractJsonLdSchema_def Let_def try_catch_def)
qed

lemma parsed_block:
  assumes p: "JSON_parse (strip_controls (trim t)) = Inr w"
    and nb: "\<not> has_double_backslash (strip_controls (trim t))"
  shows "jsonld_block t = schema_from_json w"
proof -
  have ne: "trim t \<noteq> []"
  proof
    assume "trim t = []"
    with p have "JSON_parse [] = Inr w" by (simp add: strip_controls_def)
    with JSON_parse_empty show False by auto
  qed
  have "JSON_parse (sanitizeJsonLdContent (trim t)) = Inr w"
    using p nb by (simp add: sanitizeJsonLdContent_def collapse_backslashes_id)
  with ne show ?thesis by (simp add: jsonld_block_eq bind_exn_def)
qed

text \<open>
  C8, as the code has it. Take the trimmed text of a block and delete the control
  characters that the sanitizer deletes. When what is left is valid JSON and holds no
  two backslashes in a row, \<open>JSON.parse\<close> of the sanitized text succeeds with the same
  value, and the block gives what that value gives; when the value gives a schema and
  every earlier block of the document is rejected by \<open>JSON.parse\<close>, \<open>extractSchema\<close>
  returns that schema. A block whose sanitized text \<open>JSON.parse\<close> rejects is skipped:
  the scan of the blocks gives what it gives without that block. And \<open>extractSchema\<close>
  returns and throws nothing.
\<close>

theorem C8_sanitize_and_skip:
  "(JSON_parse (strip_controls raw) = Inr v \<and> \<not> has_double_backslash (strip_controls raw)
      \<longrightarrow> JSON_parse (sanitizeJsonLdContent raw) = Inr v)
   \<and> (JSON_parse (strip_controls (trim t)) = Inr w
       \<and> \<not> has_double_backslash (strip_controls (trim t))
       \<and> schema_from_json w = Inr (Some s)
       \<and> map elem_text (querySelectorAll doc jsonld_selector) = earlier @ t # later
       \<and> (\<forall>b \<in> set earlier. \<exists>e. JSON_parse (sanitizeJsonLdContent (trim b)) = Inl e)
      \<longrightarrow> jsonld_block t = Inr (Some s) \<and> extractSchema fb (Some doc) = Inr s)
   \<and> ((\<exists>e. JSON_parse (sanitizeJsonLdContent (trim bad)) = Inl e)
      \<longrightarrow> jsonld_scan (before @ bad # after) = jsonld_scan (before @ after))
   \<and> (\<exists>s'. extractSchema fb any_doc = Inr s')"
proof (intro conjI impI)
  assume "JSON_parse (strip_controls raw) = Inr v \<and> \<not> has_double_backslash (strip_controls raw)"
  then show "JSON_parse (sanitizeJsonLdContent raw) = Inr v"
    by (simp add: sanitizeJsonLdContent_def collapse_backslashes_id)
next
  assume a: "JSON_parse (strip_controls (trim t)) = Inr w
       \<and> \<not> has_double_backslash (strip_controls (trim t))
       \<and> schema_from_json w = Inr (Some s)
       \<and> map elem_text (querySelectorAll doc jsonld_selector) = earlier @ t # later
       \<and> (\<forall>b \<in> set earlier. \<exists>e. JSON_parse (sanitizeJsonLdContent (trim b)) = Inl e)"
  then have "jsonld_block t = schema_from_json w" by (simp add: parsed_block)
  with a show blk: "jsonld_block t = Inr (Some s)" by simp
  from a have "\<forall>b \<in> set earlier. jsonld_block b = Inr None \<or> (\<exists>e. jsonld_block b = Inl e)"
    using unparseable_block by blast
  then have "jsonld_scan (earlier @ t # later) = s" using blk by (rule jsonld_scan_first)
  moreover from a have "truthy s" using schema_from_json_truthy by blast
  ultimately show "extractSchema fb (Some doc) = Inr s"
    using a extractSchema_jsonld by blast
next
  assume "\<exists>e. JSON_parse (sanitizeJsonLdContent (trim bad)) = Inl e"
  then have "jsonld_block bad = Inr None \<or> (\<exists>e. jsonld_block bad = Inl e)"
    by (rule unparseable_block)
  then show "jsonld_scan (before @ bad # after) = jsonld_scan (before @ after)"
    by (rule jsonld_scan_skip)
next
  show "\<exists>s'. extractSchema fb any_doc = Inr s'" by (rule extractSchema_returns)
qed

theorem C8_sanitize_and_skip_witness:
  "JSON_parse control_char_block = Inl (SyntaxError ''Unexpected token in JSON'')
   \<and> JSON_parse (sanitizeJsonLdContent control_char_block)
       = Inr (Obj [(''@type'', Str ''Product''), (''offers'', Obj [(''price'', Str ''19.99'')])])
   \<and> jsonld_block control_char_block
       = Inr (Some (Obj [(''@type'', Str ''Product''), (''offers'', Obj [(''price'', Str ''19.99'')])]))
   \<and> jsonld_scan [''{oops'', control_char_block] = jsonld_scan [control_char_block]
   \<and> extractSchema no_fallbacks (Some (page [jsonld_script ''{oops'',
        jsonld_script control_char_block] []))
       = Inr (Obj [(''@type'', Str ''Product''), (''offers'', Obj [(''price'', Str ''19.99'')])])"
proof -
  let ?v = "Obj [(''@type'', Str ''Product''), (''offers'', Obj [(''price'', Str ''19.99'')])]"
  let ?doc = "page [jsonld_script ''{oops'', jsonld_script control_char_block] []"
  have 0: "JSON_parse control_char_block = Inl (SyntaxError ''Unexpected token in JSON'')"
    by code_simp
  have 1: "JSON_parse (strip_controls control_char_block) = Inr ?v" by code_simp
  have 2: "\<not> has_double_backslash (strip_controls control_char_block)" by code_simp
  have t1: "JSON_parse (strip_controls (trim control_char_block)) = Inr ?v" by code_simp
  have t2: "\<not> has_double_backslash (strip_controls (trim control_char_block))" by code_simp
  have 3: "JSON_parse (sanitizeJsonLdContent (trim ''{oops''))
      = Inl (SyntaxError ''Unexpected token in JSON'')"
    by code_simp
  have 4: "schema_from_json ?v = Inr (Some ?v)" by code_simp
  have 5: "map elem_text (querySelectorAll ?doc jsonld_selector)
      = [''{oops''] @ control_char_block # []"
    by code_simp
  have 6: "\<forall>b \<in> set [''{oops'']. \<exists>e. JSON_parse (sanitizeJsonLdContent (trim b)) = Inl e"
    using 3 by simp
  show ?thesis
    using C8_sanitize_and_skip [where raw = control_char_block and v = ?v
        and t = control_char_block and w = ?v and s = ?v and doc = ?doc
        and earlier = "[''{oops'']" and later = "[]" and bad = "''{oops''" and before = "[]"
        and after = "[control_char_block]" and fb = no_fallbacks and any_doc = None]
      0 1 2 t1 t2 3 4 5 6
    by simp
qed

text \<open>
  The condition on the backslashes is on the text without the control characters,
  since the sanitizer deletes them before it looks for two backslashes: in the block
  below the two backslashes stand apart, with U+0001 between them, and the sanitized
  text is rejected all the same.
\<close>

lemma split_backslashes_meet:
  "\<not> has_double_backslash split_backslash_block
   \<and> has_double_backslash (strip_controls split_backslash_block)
   \<and> JSON_parse (strip_controls split_backslash_block)
     = Inr (Obj [(''@type'', Str ''Product''), (''name'', Str [CHR ''x'', CHR 0x5C])])
   \<and> JSON_parse (sanitizeJsonLdContent split_backslash_block)
     = Inl (SyntaxError ''Unexpected token in JSON'')"
  by code_simp

text \<open>
  C8 as stated fails. The block below holds the control character U+0001 and is valid
  JSON without it: the name is \<open>a\c\<close>, written with an escaped backslash. The sanitizer
  turns the two backslashes into one, \<open>JSON.parse\<close> rejects \<open>\c\<close>, and the block is
  skipped: no schema is found.
\<close>

theorem C8_counterexample:
  "JSON_parse (strip_controls escaped_backslash_block)
     = Inr (Obj [(''@type'', Str ''Product''), (''name'', Str [CHR ''a'', CHR 0x5C, CHR ''c''])])
   \<and> JSON_parse (sanitizeJsonLdContent escaped_backslash_block)
     = Inl (SyntaxError ''Unexpected token in JSON'')
   \<and> extractSchema no_fallbacks (Some (page [jsonld_script escaped_backslash_block] []))
     = Inr Null"
  by code_simp

section \<open>Properties of the readability service\<close>

text \<open>
  C6, as the code has it. For a document that is there, \<open>parseArticle\<close> returns and
  throws nothing: when a step throws, the result is the degraded record with the title
  \<open>Untitled Article\<close>, empty text and excerpt, and zero counts; otherwise it is the
  record of the steps. For a missing document, \<open>parseArticle\<close> throws the error
  \<open>No DOM provided to parseArticle\<close>.
\<close>

theorem C6_parseArticle_amended:
  "(\<exists>a. parseArticle steps (Some doc) = Inr a)
   \<and> ((\<exists>e. parseArticle_body steps doc = Inl e)
        \<longrightarrow> parseArticle steps (Some doc) = Inr degraded_article)
   \<and> (\<forall>a. parseArticle_body steps doc = Inr a \<longrightarrow> parseArticle steps (Some doc) = Inr a)
   \<and> parseArticle steps None = Inl (Error ''No DOM provided to parseArticle'')"
  by (cases "parseArticle_body steps doc") (simp_all add: parseArticle_def try_catch_def)

theorem C6_parseArticle_amended_witness:
  "parseArticle throwing_steps (Some empty_page) = Inr degraded_article
   \<and> parseArticle plain_steps (Some empty_page)
       = Inr \<lparr>title = ''Untitled Article'', content = Some (Element ''body'' [] []),
              articleText = [], excerpt = [], readingTime = 0, wordCount = 0\<rparr>"
proof -
  have 1: "parseArticle_body throwing_steps empty_page
      = Inl (TypeError ''dom.querySelector is not a function'')"
    by (simp add: parseArticle_body_def throwing_steps_def bind_exn_def)
  have 2: "parseArticle_body plain_steps empty_page
      = Inr \<lparr>title = ''Untitled Article'', content = Some (Element ''body'' [] []),
              articleText = [], excerpt = [], readingTime = 0, wordCount = 0\<rparr>"
    by code_simp
  show ?thesis
    using C6_parseArticle_amended [of throwing_steps empty_page]
      C6_parseArticle_amended [of plain_steps empty_page] 1 2
    by simp
qed

text \<open>
  C6 as stated fails: for a missing document \<open>parseArticle\<close> throws, and returns no
  record.
\<close>

theorem C6_counterexample:
  "parseArticle plain_steps None = Inl (Error ''No DOM provided to parseArticle'')"
  by (simp add: parseArticle_def)

section \<open>Properties of the content extractor\<close>

lemma product_fields_return:
  "\<exists>p r a. (if truthy schema \<and> type_of_schema schema = Str ''Product'' then
          bind_exn (get_prop schema ''offers'') (\<lambda>offers.
            bind_exn (opt_chain offers ''price'') (\<lambda>price.
              bind_exn (get_prop schema ''aggregateRating'') (\<lambda>aggregateRating.
                bind_exn (opt_chain aggregateRating ''ratingValue'') (\<lambda>rating.
                  bind_exn (opt_chain offers ''availability'') (\<lambda>availability.
                    Inr (price, rating, availability))))))
        else Inr (extractPrice doc, extractRating doc, extractAvailability doc)) = Inr (p, r, a)"
proof -
  have g: "\<And>v k. truthy v \<Longrightarrow> \<exists>x. get_prop v k = Inr x"
    subgoal for v k by (cases v) auto
    done
  have o: "\<And>v k. \<exists>x. opt_chain v k = Inr x"
    subgoal for v k by (cases v) (auto simp: opt_chain_def)
    done
  show ?thesis
  proof (cases "truthy schema \<and> type_of_schema schema = Str ''Product''")
    case False
    then show ?thesis by auto
  next
    case True
    then obtain offers where 1: "get_prop schema ''offers'' = Inr offers" using g by blast
    obtain price where 2: "opt_chain offers ''price'' = Inr price" using o by blast
    obtain ar where 3: "get_prop schema ''aggregateRating'' = Inr ar" using True g by blast
    obtain rating where 4: "opt_chain ar ''ratingValue'' = Inr rating" using o by blast
    obtain av where 5: "opt_chain offers ''availability'' = Inr av" using o by blast
    show ?thesis using True 1 2 3 4 5 by (simp add: bind_exn_def)
  qed
qed

text \<open>Whatever the page and the schema, \<open>processProduct\<close> throws.\<close>

lemma processProduct_throws:
  "processProduct doc previewData schema
     = Inl (TypeError ''imageProcessor.extractProductImages is not a function'')"
proof -
  have c: "call_imageProcessor ''extractProductImages'' (\<lambda>d. Inr (Arr [])) doc
      = Inl (TypeError ''imageProcessor.extractProductImages is not a function'')"
    by (simp add: call_imageProcessor_def imageProcessor_methods_def)
  obtain p r a where "(if truthy schema \<and> type_of_schema schema = Str ''Product'' then
          bind_exn (get_prop schema ''offers'') (\<lambda>offers.
            bind_exn (opt_chain offers ''price'') (\<lambda>price.
              bind_exn (get_prop schema ''aggregateRating'') (\<lambda>aggregateRating.
                bind_exn (opt_chain aggregateRating ''ratingValue'') (\<lambda>rating.
                  bind_exn (opt_chain offers ''availability'') (\<lambda>availability.
                    Inr (price, rating, availability))))))
        else Inr (extractPrice doc, extractRating doc, extractAvailability doc)) = Inr (p, r, a)"
    using product_fields_return by blast
  then show ?thesis
    unfolding processProduct_def processProduct_with_def
    by (simp add: bind_exn_def c)
qed



text \<open>
  C7. The page of the claim is classified as a product, and its schema holds the price
  \<open>"19.99"\<close>. The record that \<open>extract\<close> delivers for it is the error record, without a
  price: \<open>processProduct\<close> calls \<open>imageProcessor.extractProductImages\<close>, which does not
  exist. Had the call returned a list of images, the record would hold the price.
\<close>

theorem C7_product_page:
  "detect (Some product_page) ''https://example.org/page'' = Inr ''product''
   \<and> parseFromString example_env product_html = product_page
   \<and> extract_preview example_env ''https://example.org/page'' [] (Inr product_html)
     = \<lparr>delivered = [error_preview ''https://example.org/page'' []
          (TypeError ''imageProcessor.extractProductImages is not a function'')],
        thrown = None\<rparr>
   \<and> field (error_preview ''https://example.org/page'' []
          (TypeError ''imageProcessor.extractProductImages is not a function'')) ''price''
     = Undefined
   \<and> map_sum id (\<lambda>r. field r ''price'')
       (processProduct_with (\<lambda>d. Inr (Arr [])) product_page (Obj [])
          (Obj [(''@type'', Str ''Product''), (''offers'', Obj [(''price'', Str ''19.99'')])]))
     = Inr (Str ''19.99'')"
  by code_simp

end
